theory Spec2Isabelle
  imports Complex_Main "HOL-Library.Char_ord" "HOL-Library.List_Lexorder" "HOL-Library.Multiset"
begin

section \<open>The Google Search tool of llm\_intents\<close>

text \<open>
  A shallow embedding of \<^verbatim>\<open>custom_components/llm_intents/GoogleSearch.py\<close>:
  the class \<^verbatim>\<open>GoogleSearchTool\<close> with its methods \<^verbatim>\<open>wrap_response\<close> and
  \<^verbatim>\<open>async_call\<close>. Python values that come from JSON are values of the datatype
  \<open>json\<close>, an exception is a value of \<open>exn\<close>, and a Python expression that may raise
  has a result of type \<open>exn + 'a\<close> (\<open>Inl\<close> the exception). The cache content and the HTTP
  requests that were sent are an explicit state (\<open>world\<close>) that \<open>async_call\<close> takes and
  returns. Calls of the logger are not modelled: they change neither the returned value
  nor the cache nor the network traffic. The reading of the body for the log in line 107
  is modelled, since it may raise.
\<close>

subsection \<open>Python values\<close>

text \<open>
  Strings are byte lists holding the UTF-8 encoding of the Python string. A finite
  Python float is a rational number; the non-finite floats, which are truthy like every
  non-zero float, are not represented. A \<open>dict\<close> is an association list in insertion order
  with distinct keys.
\<close>

datatype json =
    JNull
  | JBool bool
  | JInt int
  | JFloat rat
  | JStr string
  | JList "json list"
  | JObj "(string \<times> json) list"

text \<open>The truth value Python gives to a value in \<^verbatim>\<open>if v:\<close> and \<^verbatim>\<open>not v\<close>.\<close>

fun truthy :: "json \<Rightarrow> bool" where
  "truthy JNull = False"
| "truthy (JBool b) = b"
| "truthy (JInt i) = (i \<noteq> 0)"
| "truthy (JFloat f) = (f \<noteq> 0)"
| "truthy (JStr s) = (s \<noteq> [])"
| "truthy (JList xs) = (xs \<noteq> [])"
| "truthy (JObj kvs) = (kvs \<noteq> [])"

fun type_name :: "json \<Rightarrow> string" where
  "type_name JNull = ''NoneType''"
| "type_name (JBool b) = ''bool''"
| "type_name (JInt i) = ''int''"
| "type_name (JFloat f) = ''float''"
| "type_name (JStr s) = ''str''"
| "type_name (JList xs) = ''list''"
| "type_name (JObj kvs) = ''dict''"

subsection \<open>Exceptions\<close>

text \<open>
  An exception is its class name and the text \<^verbatim>\<open>str(e)\<close>. \<open>Raised\<close> is an instance of
  \<^verbatim>\<open>Exception\<close>, the class the handler of line 149 catches. \<open>BaseRaised\<close> is an instance
  of a class that derives from \<^verbatim>\<open>BaseException\<close> and not from \<^verbatim>\<open>Exception\<close>, such as
  \<^verbatim>\<open>asyncio.CancelledError\<close> and \<^verbatim>\<open>KeyboardInterrupt\<close>: the handler does not catch it.
  The exceptions that the operations on values raise are instances of \<^verbatim>\<open>Exception\<close>; a
  collaborator may raise either kind.
\<close>

datatype exn =
    is_Exception: Raised (exn_class: string) (str_exn: string)
  | BaseRaised (exn_class: string) (str_exn: string)

definition quoted :: "string \<Rightarrow> string" where
  "quoted s = [CHR 0x27] @ s @ [CHR 0x27]"

definition AttributeError :: "json \<Rightarrow> string \<Rightarrow> exn" where
  "AttributeError v a =
     Raised ''AttributeError'' (quoted (type_name v) @ '' object has no attribute '' @ quoted a)"

definition TypeError :: "string \<Rightarrow> exn" where
  "TypeError msg = Raised ''TypeError'' msg"

definition IndexError :: "string \<Rightarrow> exn" where
  "IndexError msg = Raised ''IndexError'' msg"

definition KeyError :: "string \<Rightarrow> exn" where
  "KeyError key_repr = Raised ''KeyError'' key_repr"

subsection \<open>Operations on values\<close>

text \<open>\<^verbatim>\<open>v.get(k, d)\<close>: only a dict has the method.\<close>

fun py_get :: "json \<Rightarrow> string \<Rightarrow> json \<Rightarrow> exn + json" where
  "py_get (JObj kvs) k d = Inr (case map_of kvs k of None \<Rightarrow> d | Some x \<Rightarrow> x)"
| "py_get v k d = Inl (AttributeError v ''get'')"

text \<open>
  The first character of a string: its first byte and the continuation bytes of the
  UTF-8 encoding that follow it.
\<close>

definition is_continuation :: "char \<Rightarrow> bool" where
  "is_continuation c = (128 \<le> (of_char c :: nat) \<and> (of_char c :: nat) < 192)"

function utf8_chars :: "string \<Rightarrow> string list" where
  "utf8_chars [] = []"
| "utf8_chars (c # cs) =
     (c # takeWhile is_continuation cs) # utf8_chars (dropWhile is_continuation cs)"
  by pat_completeness auto
termination
  by (relation "measure length") (auto simp: le_imp_less_Suc length_dropWhile_le)

text \<open>
  \<^verbatim>\<open>v[0]\<close>. The keys of a dict that comes from JSON are strings, so the key \<open>0\<close> is
  never present in it.
\<close>

fun py_index0 :: "json \<Rightarrow> exn + json" where
  "py_index0 (JList []) = Inl (IndexError ''list index out of range'')"
| "py_index0 (JList (x # xs)) = Inr x"
| "py_index0 (JStr []) = Inl (IndexError ''string index out of range'')"
| "py_index0 (JStr (c # cs)) = Inr (JStr (c # takeWhile is_continuation cs))"
| "py_index0 (JObj kvs) = Inl (KeyError ''0'')"
| "py_index0 v = Inl (TypeError (quoted (type_name v) @ '' object is not subscriptable''))"

text \<open>The elements \<^verbatim>\<open>for x in v\<close> runs through.\<close>

fun py_iter :: "json \<Rightarrow> exn + json list" where
  "py_iter (JList xs) = Inr xs"
| "py_iter (JObj kvs) = Inr (map (\<lambda>kv. JStr (fst kv)) kvs)"
| "py_iter (JStr s) = Inr (map JStr (utf8_chars s))"
| "py_iter v = Inl (TypeError (quoted (type_name v) @ '' object is not iterable''))"

text \<open>\<^verbatim>\<open>d[k] = v\<close> on a dict: a present key keeps its place, a new key goes last.\<close>

fun dict_set :: "string \<Rightarrow> json \<Rightarrow> (string \<times> json) list \<Rightarrow> (string \<times> json) list" where
  "dict_set k v [] = [(k, v)]"
| "dict_set k v (kv # kvs) = (if fst kv = k then (k, v) # kvs else kv # dict_set k v kvs)"

text \<open>An integer in an f-string: its decimal digits.\<close>

fun digits :: "nat \<Rightarrow> string" where
  "digits n = (if n < 10 then [char_of (48 + n)] else digits (n div 10) @ [char_of (48 + n mod 10)])"

definition str_int :: "int \<Rightarrow> string" where
  "str_int i = (if i < 0 then CHR ''-'' # digits (nat (- i)) else digits (nat i))"

subsection \<open>The constants of the class\<close>

text \<open>\<^verbatim>\<open>GoogleSearchTool.response_instruction\<close>, the Russian text of lines 29 to 47
  of the source, in UTF-8, one definition for each line.\<close>

definition response_instruction_line_29 :: string where
  "response_instruction_line_29 = map char_of
    [10::nat]"

definition response_instruction_line_30 :: string where
  "response_instruction_line_30 = map char_of
    [32::nat, 32, 32, 32, 208, 152, 209, 129, 208, 191, 208, 190, 208, 187, 209, 140, 208, 183, 209,
     131, 208, 185, 32, 209, 128, 208, 181, 208, 183, 209, 131, 208, 187, 209, 140, 209, 130,
     208, 176, 209, 130, 209, 139, 32, 208, 191, 208, 190, 208, 184, 209, 129, 208, 186, 208,
     176, 32, 208, 184, 32, 209, 130, 208, 181, 208, 186, 209, 131, 209, 137, 209, 131, 209,
     142, 32, 208, 180, 208, 176, 209, 130, 209, 131, 32, 208, 184, 208, 183, 32, 209, 129,
     208, 184, 209, 129, 209, 130, 208, 181, 208, 188, 208, 189, 208, 190, 208, 179, 208, 190,
     32, 208, 191, 209, 128, 208, 190, 208, 188, 208, 191, 209, 130, 208, 176, 46, 32, 10]"

definition response_instruction_line_31 :: string where
  "response_instruction_line_31 = map char_of
    [32::nat, 32, 32, 32, 208, 149, 209, 129, 208, 187, 208, 184, 32, 208, 191, 208, 190, 208, 187,
     209, 140, 208, 183, 208, 190, 208, 178, 208, 176, 209, 130, 208, 181, 208, 187, 209, 140,
     32, 209, 129, 208, 191, 209, 128, 208, 190, 209, 129, 208, 184, 208, 187, 32, 34, 209,
     135, 208, 181, 209, 128, 208, 181, 208, 183, 32, 209, 129, 208, 186, 208, 190, 208, 187,
     209, 140, 208, 186, 208, 190, 32, 208, 180, 208, 189, 208, 181, 208, 185, 47, 208, 188,
     208, 181, 209, 129, 209, 143, 209, 134, 208, 181, 208, 178, 34, 44, 32, 209, 130, 209,
     139, 32, 208, 158, 208, 145, 208, 175, 208, 151, 208, 144, 208, 157, 208, 144, 32, 209,
     129, 208, 176, 208, 188, 208, 176, 32, 208, 178, 209, 139, 209, 135, 208, 184, 209, 129,
     208, 187, 208, 184, 209, 130, 209, 140, 32, 209, 128, 208, 176, 208, 183, 208, 189, 208,
     184, 209, 134, 209, 131, 44, 32, 10]"

definition response_instruction_line_32 :: string where
  "response_instruction_line_32 = map char_of
    [32::nat, 32, 32, 32, 208, 190, 209, 129, 208, 189, 208, 190, 208, 178, 209, 139, 208, 178, 208,
     176, 209, 143, 209, 129, 209, 140, 32, 208, 189, 208, 176, 32, 209, 129, 208, 181, 208,
     179, 208, 190, 208, 180, 208, 189, 209, 143, 209, 136, 208, 189, 208, 181, 208, 188, 32,
     209, 135, 208, 184, 209, 129, 208, 187, 208, 181, 46, 10]"

definition response_instruction_line_33 :: string where
  "response_instruction_line_33 = map char_of
    [10::nat]"

definition response_instruction_line_34 :: string where
  "response_instruction_line_34 = map char_of
    [32::nat, 32, 32, 32, 208, 162, 208, 146, 208, 158, 208, 175, 32, 208, 151, 208, 144, 208, 148,
     208, 144, 208, 167, 208, 144, 58, 10]"

definition response_instruction_line_35 :: string where
  "response_instruction_line_35 = map char_of
    [32::nat, 32, 32, 32, 208, 158, 209, 130, 208, 178, 208, 181, 209, 135, 208, 176, 209, 130, 209,
     140, 32, 208, 182, 208, 184, 208, 178, 209, 139, 208, 188, 44, 32, 208, 181, 209, 129,
     209, 130, 208, 181, 209, 129, 209, 130, 208, 178, 208, 181, 208, 189, 208, 189, 209, 139,
     208, 188, 32, 209, 143, 208, 183, 209, 139, 208, 186, 208, 190, 208, 188, 32, 40, 208,
     187, 208, 184, 209, 128, 208, 184, 208, 186, 208, 176, 32, 208, 184, 32, 208, 186, 208,
     190, 208, 188, 208, 188, 208, 181, 208, 189, 209, 130, 208, 176, 209, 128, 208, 184, 208,
     184, 32, 209, 128, 208, 176, 208, 183, 209, 128, 208, 181, 209, 136, 208, 181, 208, 189,
     209, 139, 41, 44, 32, 208, 157, 208, 158, 32, 209, 129, 32, 209, 133, 208, 184, 209, 128,
     209, 131, 209, 128, 208, 179, 208, 184, 209, 135, 208, 181, 209, 129, 208, 186, 208, 190,
     208, 185, 32, 209, 130, 208, 190, 209, 135, 208, 189, 208, 190, 209, 129, 209, 130, 209,
     140, 209, 142, 32, 208, 186, 32, 209, 132, 208, 176, 208, 186, 209, 130, 208, 176, 208,
     188, 46, 10]"

definition response_instruction_line_36 :: string where
  "response_instruction_line_36 = map char_of
    [10::nat]"

definition response_instruction_line_37 :: string where
  "response_instruction_line_37 = map char_of
    [32::nat, 32, 32, 32, 208, 161, 208, 162, 208, 160, 208, 158, 208, 147, 208, 152, 208, 149, 32,
     208, 159, 208, 160, 208, 144, 208, 146, 208, 152, 208, 155, 208, 144, 32, 208, 158, 208,
     145, 208, 160, 208, 144, 208, 145, 208, 158, 208, 162, 208, 154, 208, 152, 32, 208, 164,
     208, 144, 208, 154, 208, 162, 208, 158, 208, 146, 58, 10]"

definition response_instruction_line_38 :: string where
  "response_instruction_line_38 = map char_of
    [32::nat, 32, 32, 32, 49, 46, 32, 208, 152, 208, 151, 208, 158, 208, 155, 208, 175, 208, 166,
     208, 152, 208, 175, 32, 208, 155, 208, 158, 208, 154, 208, 144, 208, 166, 208, 152, 208,
     153, 32, 40, 208, 161, 208, 176, 208, 188, 208, 190, 208, 181, 32, 208, 178, 208, 176,
     208, 182, 208, 189, 208, 190, 208, 181, 41, 58, 32, 208, 149, 209, 129, 208, 187, 208,
     184, 32, 208, 178, 32, 209, 130, 208, 181, 208, 186, 209, 129, 209, 130, 208, 181, 32,
     209, 131, 208, 191, 208, 190, 208, 188, 209, 143, 208, 189, 209, 131, 209, 130, 208, 190,
     32, 208, 189, 208, 181, 209, 129, 208, 186, 208, 190, 208, 187, 209, 140, 208, 186, 208,
     190, 32, 208, 188, 208, 181, 209, 129, 209, 130, 32, 40, 208, 189, 208, 176, 208, 191,
     209, 128, 208, 184, 208, 188, 208, 181, 209, 128, 44, 32, 208, 152, 208, 189, 208, 180,
     208, 184, 209, 143, 44, 32, 208, 154, 208, 176, 208, 183, 208, 176, 209, 133, 209, 129,
     209, 130, 208, 176, 208, 189, 44, 32, 208, 154, 208, 176, 208, 188, 209, 135, 208, 176,
     209, 130, 208, 186, 208, 176, 41, 44, 32, 209, 130, 209, 139, 32, 208, 190, 208, 177, 209,
     143, 208, 183, 208, 176, 208, 189, 208, 176, 32, 208, 191, 208, 181, 209, 128, 208, 181,
     209, 135, 208, 184, 209, 129, 208, 187, 208, 184, 209, 130, 209, 140, 32, 208, 184, 209,
     133, 32, 208, 158, 208, 162, 208, 148, 208, 149, 208, 155, 208, 172, 208, 157, 208, 158,
     46, 10]"

definition response_instruction_line_39 :: string where
  "response_instruction_line_39 = map char_of
    [32::nat, 32, 32, 32, 32, 32, 32, 45, 32, 208, 151, 208, 144, 208, 159, 208, 160, 208, 149, 208,
     169, 208, 149, 208, 157, 208, 158, 32, 209, 129, 208, 188, 208, 181, 209, 136, 208, 184,
     208, 178, 208, 176, 209, 130, 209, 140, 32, 208, 180, 208, 176, 208, 189, 208, 189, 209,
     139, 208, 181, 58, 32, 208, 157, 208, 181, 208, 187, 209, 140, 208, 183, 209, 143, 32,
     208, 191, 208, 184, 209, 129, 208, 176, 209, 130, 209, 140, 32, 34, 208, 146, 32, 208,
     154, 208, 176, 208, 183, 208, 176, 209, 133, 209, 129, 209, 130, 208, 176, 208, 189, 208,
     181, 32, 208, 184, 32, 208, 189, 208, 176, 32, 208, 154, 208, 176, 208, 188, 209, 135,
     208, 176, 209, 130, 208, 186, 208, 181, 32, 208, 177, 209, 139, 208, 187, 208, 184, 32,
     209, 130, 208, 190, 208, 187, 209, 135, 208, 186, 208, 184, 32, 208, 180, 208, 190, 32,
     53, 32, 208, 177, 208, 176, 208, 187, 208, 187, 208, 190, 208, 178, 34, 44, 32, 208, 181,
     209, 129, 208, 187, 208, 184, 32, 53, 32, 208, 177, 208, 176, 208, 187, 208, 187, 208,
     190, 208, 178, 32, 208, 177, 209, 139, 208, 187, 208, 190, 32, 209, 130, 208, 190, 208,
     187, 209, 140, 208, 186, 208, 190, 32, 208, 189, 208, 176, 32, 208, 154, 208, 176, 208,
     188, 209, 135, 208, 176, 209, 130, 208, 186, 208, 181, 46, 10]"

definition response_instruction_line_40 :: string where
  "response_instruction_line_40 = map char_of
    [32::nat, 32, 32, 32, 32, 32, 32, 45, 32, 208, 159, 209, 128, 208, 176, 208, 178, 208, 184, 208,
     187, 209, 140, 208, 189, 208, 190, 58, 32, 34, 208, 146, 32, 208, 154, 208, 176, 208, 183,
     208, 176, 209, 133, 209, 129, 209, 130, 208, 176, 208, 189, 208, 181, 32, 226, 128, 148,
     32, 52, 46, 50, 46, 32, 208, 144, 32, 208, 178, 208, 190, 209, 130, 32, 208, 189, 208,
     176, 32, 208, 154, 208, 176, 208, 188, 209, 135, 208, 176, 209, 130, 208, 186, 208, 181,
     32, 226, 128, 148, 32, 208, 180, 208, 190, 32, 53, 46, 48, 34, 46, 10]"

definition response_instruction_line_41 :: string where
  "response_instruction_line_41 = map char_of
    [32::nat, 32, 32, 32, 10]"

definition response_instruction_line_42 :: string where
  "response_instruction_line_42 = map char_of
    [32::nat, 32, 32, 32, 50, 46, 32, 208, 151, 208, 144, 208, 159, 208, 160, 208, 149, 208, 162,
     32, 208, 157, 208, 144, 32, 34, 208, 154, 208, 160, 208, 144, 208, 150, 208, 163, 34, 32,
     208, 166, 208, 152, 208, 164, 208, 160, 58, 32, 208, 157, 208, 184, 208, 186, 208, 190,
     208, 179, 208, 180, 208, 176, 32, 208, 189, 208, 181, 32, 208, 191, 209, 128, 208, 184,
     208, 191, 208, 184, 209, 129, 209, 139, 208, 178, 208, 176, 208, 185, 32, 208, 188, 208,
     176, 208, 179, 208, 189, 208, 184, 209, 130, 209, 131, 208, 180, 209, 131, 32, 208, 184,
     208, 187, 208, 184, 32, 208, 180, 208, 176, 209, 130, 209, 131, 32, 208, 190, 208, 180,
     208, 189, 208, 190, 208, 179, 208, 190, 32, 209, 129, 208, 190, 208, 177, 209, 139, 209,
     130, 208, 184, 209, 143, 32, 208, 180, 209, 128, 209, 131, 208, 179, 208, 190, 208, 188,
     209, 131, 46, 32, 208, 159, 209, 128, 208, 190, 208, 178, 208, 181, 209, 128, 209, 143,
     208, 185, 32, 208, 186, 208, 176, 208, 182, 208, 180, 208, 190, 208, 181, 32, 209, 135,
     208, 184, 209, 129, 208, 187, 208, 190, 58, 32, 208, 186, 32, 208, 186, 208, 176, 208,
     186, 208, 190, 208, 188, 209, 131, 32, 208, 179, 208, 190, 209, 128, 208, 190, 208, 180,
     209, 131, 32, 208, 190, 208, 189, 208, 190, 32, 208, 190, 209, 130, 208, 189, 208, 190,
     209, 129, 208, 184, 209, 130, 209, 129, 209, 143, 32, 208, 178, 32, 208, 184, 209, 129,
     209, 133, 208, 190, 208, 180, 208, 189, 208, 184, 208, 186, 208, 181, 63, 10]"

definition response_instruction_line_43 :: string where
  "response_instruction_line_43 = map char_of
    [32::nat, 32, 32, 32, 10]"

definition response_instruction_line_44 :: string where
  "response_instruction_line_44 = map char_of
    [32::nat, 32, 32, 32, 51, 46, 32, 208, 147, 208, 149, 208, 158, 208, 147, 208, 160, 208, 144,
     208, 164, 208, 152, 208, 175, 58, 32, 208, 157, 208, 181, 32, 208, 188, 208, 181, 208,
     189, 209, 143, 208, 185, 32, 208, 189, 208, 176, 208, 183, 208, 178, 208, 176, 208, 189,
     208, 184, 209, 143, 32, 208, 188, 208, 181, 209, 129, 209, 130, 46, 32, 208, 149, 209,
     129, 208, 187, 208, 184, 32, 208, 189, 208, 176, 208, 191, 208, 184, 209, 129, 208, 176,
     208, 189, 208, 190, 32, 34, 208, 174, 208, 182, 208, 189, 208, 176, 209, 143, 32, 208,
     144, 209, 130, 208, 187, 208, 176, 208, 189, 209, 130, 208, 184, 208, 186, 208, 176, 34,
     44, 32, 208, 189, 208, 181, 32, 208, 191, 208, 184, 209, 136, 208, 184, 32, 34, 208, 144,
     208, 188, 208, 181, 209, 128, 208, 184, 208, 186, 208, 176, 34, 46, 10]"

definition response_instruction_line_45 :: string where
  "response_instruction_line_45 = map char_of
    [10::nat]"

definition response_instruction_line_46 :: string where
  "response_instruction_line_46 = map char_of
    [32::nat, 32, 32, 32, 208, 152, 209, 130, 208, 190, 208, 179, 58, 32, 208, 147, 208, 190, 208,
     178, 208, 190, 209, 128, 208, 184, 32, 208, 186, 209, 128, 208, 176, 209, 129, 208, 184,
     208, 178, 208, 190, 44, 32, 208, 189, 208, 190, 32, 209, 134, 208, 184, 209, 132, 209,
     128, 209, 139, 32, 208, 184, 32, 208, 179, 208, 190, 209, 128, 208, 190, 208, 180, 208,
     176, 32, 209, 128, 208, 176, 209, 129, 208, 186, 208, 187, 208, 176, 208, 180, 209, 139,
     208, 178, 208, 176, 208, 185, 32, 209, 129, 209, 130, 209, 128, 208, 190, 208, 179, 208,
     190, 32, 208, 191, 208, 190, 32, 208, 191, 208, 190, 208, 187, 208, 190, 209, 135, 208,
     186, 208, 176, 208, 188, 44, 32, 208, 189, 208, 181, 32, 209, 129, 208, 188, 208, 181,
     209, 136, 208, 184, 208, 178, 208, 176, 209, 143, 32, 208, 184, 209, 133, 46, 10]"

definition response_instruction_line_47 :: string where
  "response_instruction_line_47 = map char_of
    [32::nat, 32, 32, 32]"

definition response_instruction :: string where
  "response_instruction = concat
    [response_instruction_line_29,
     response_instruction_line_30,
     response_instruction_line_31,
     response_instruction_line_32,
     response_instruction_line_33,
     response_instruction_line_34,
     response_instruction_line_35,
     response_instruction_line_36,
     response_instruction_line_37,
     response_instruction_line_38,
     response_instruction_line_39,
     response_instruction_line_40,
     response_instruction_line_41,
     response_instruction_line_42,
     response_instruction_line_43,
     response_instruction_line_44,
     response_instruction_line_45,
     response_instruction_line_46,
     response_instruction_line_47]"

text \<open>The text of the \<^verbatim>\<open>systemInstruction\<close> of the request, in UTF-8.\<close>

definition system_instruction :: string where
  "system_instruction = map char_of
    [208::nat, 162, 209, 139, 32, 226, 128, 148, 32, 208, 191, 208, 190, 208, 184, 209, 129, 208, 186,
     208, 190, 208, 178, 209, 139, 208, 185, 32, 208, 176, 209, 129, 209, 129, 208, 184, 209,
     129, 209, 130, 208, 181, 208, 189, 209, 130, 46, 32, 208, 152, 209, 129, 208, 191, 208, 190,
     208, 187, 209, 140, 208, 183, 209, 131, 208, 185, 32, 208, 191, 208, 190, 208, 184, 209,
     129, 208, 186, 32, 208, 180, 208, 187, 209, 143, 32, 208, 191, 208, 190, 208, 187, 209, 131,
     209, 135, 208, 181, 208, 189, 208, 184, 209, 143, 32, 208, 176, 208, 186, 209, 130, 209,
     131, 208, 176, 208, 187, 209, 140, 208, 189, 208, 190, 208, 185, 32, 208, 184, 208, 189,
     209, 132, 208, 190, 209, 128, 208, 188, 208, 176, 209, 134, 208, 184, 208, 184, 46, 32, 208,
     146, 208, 181, 209, 128, 208, 189, 208, 184, 32, 208, 186, 209, 128, 208, 176, 209, 130,
     208, 186, 209, 131, 209, 142, 32, 208, 178, 209, 139, 208, 182, 208, 184, 208, 188, 208,
     186, 209, 131, 32, 208, 191, 208, 190, 32, 209, 128, 208, 181, 208, 183, 209, 131, 208, 187,
     209, 140, 209, 130, 208, 176, 209, 130, 208, 176, 208, 188, 32, 208, 191, 208, 190, 208,
     184, 209, 129, 208, 186, 208, 176, 46, 32, 208, 146, 209, 129, 208, 181, 208, 179, 208, 180,
     208, 176, 32, 208, 190, 209, 130, 208, 178, 208, 181, 209, 135, 208, 176, 208, 185, 32, 208,
     189, 208, 176, 32, 209, 128, 209, 131, 209, 129, 209, 129, 208, 186, 208, 190, 208, 188, 32,
     209, 143, 208, 183, 209, 139, 208, 186, 208, 181, 46]"

text \<open>The text of the result returned when the answer has no candidates, in UTF-8.\<close>

definition information_not_found :: string where
  "information_not_found = map char_of
    [208::nat, 152, 208, 189, 209, 132, 208, 190, 209, 128, 208, 188, 208, 176, 209, 134, 208, 184,
     209, 143, 32, 208, 189, 208, 181, 32, 208, 189, 208, 176, 208, 185, 208, 180, 208, 181, 208,
     189, 208, 176, 46]"

text \<open>\<^verbatim>\<open>__name__\<close> of the module, the namespace of its cache entries.\<close>

definition this_module :: string where
  "this_module = ''custom_components.llm_intents.GoogleSearch''"

text \<open>
  The names imported from \<^verbatim>\<open>.const\<close>, a module that is not part of the sources: they are
  parameters of the model.
\<close>

record const_py =
  DOMAIN :: string
  CONF_GOOGLE_SEARCH_API_KEY :: string
  CONF_GOOGLE_SEARCH_MODEL :: string

subsection \<open>The host and the collaborators\<close>

text \<open>
  What \<^verbatim>\<open>async_call\<close> reads from the host: \<^verbatim>\<open>hass.data\<close>, a dict from a domain to a
  dict whose entry \<^verbatim>\<open>"config"\<close> holds settings, and the options of the config entries that
  \<^verbatim>\<open>hass.config_entries.async_entries\<close> returns for a domain. A setting is a string, and
  so is an argument of the tool (the schema \<^verbatim>\<open>parameters\<close> of the class).
\<close>

record hass =
  hass_data :: "string \<rightharpoonup> (string \<rightharpoonup> (string \<rightharpoonup> string))"
  async_entries :: "string \<Rightarrow> (string \<rightharpoonup> string) list"

record tool_input =
  tool_args :: "string \<rightharpoonup> string"

text \<open>The arguments of \<^verbatim>\<open>session.post(url, json=payload, timeout=15)\<close>.\<close>

record request =
  req_url :: string
  req_json :: json
  req_timeout :: nat

text \<open>
  A response whose status line was received: \<^verbatim>\<open>resp.status\<close>, the outcome of
  \<^verbatim>\<open>await resp.text()\<close>, which raises when the body cannot be read or decoded, and the
  outcome of \<^verbatim>\<open>await resp.json()\<close>, which raises when the body cannot be read or is not
  JSON. When \<^verbatim>\<open>session.post\<close> itself raises (no connection, the time limit passes)
  the outcome is \<open>HttpRaises\<close>.
\<close>

record response =
  resp_status :: int
  resp_text :: "exn + string"
  resp_json :: "exn + json"

datatype http_outcome = HttpRaises exn | HttpResponse response

text \<open>
  How the cache object fails before the request, when it does: the constructor of line 96
  raises, or \<^verbatim>\<open>get\<close> raises in line 99.
\<close>

datatype cache_failure = ConstructorRaises exn | GetRaises exn

text \<open>
  The collaborators of one invocation: whether and how the cache object fails before the
  request, whether \<^verbatim>\<open>cache.set\<close> raises in line 146, whether the storage engine
  works, and what the server answers to a request.
\<close>

record env =
  SQLiteCache :: "cache_failure option"
  set_raises :: "exn option"
  storage_ok :: bool
  post :: "request \<Rightarrow> http_outcome"

text \<open>
  The state an invocation changes: the content of the cache, the keys that were looked
  up in it and the HTTP requests that were sent, the latest last.
\<close>

record world =
  store :: "string \<rightharpoonup> json"
  lookups :: "string list"
  requests :: "request list"

subsection \<open>The cache\<close>

text \<open>
  Modelled from the spec: the key derivation of the class \<^verbatim>\<open>SQLiteCache\<close> (module
  \<^verbatim>\<open>.cache\<close>, which is not part of the sources). The spec, section 4.1: the key is the
  namespace concatenated with a canonical serialization of the parameters, with a stable
  key ordering and a stable value formatting; the serialized string itself is the key.
  Each name and each value is written as its length, a colon and its text.
\<close>

definition serialize :: "(string \<times> string) list \<Rightarrow> string" where
  "serialize params =
     concat (map (\<lambda>kv. digits (length (fst kv)) @ '':'' @ fst kv @
                          digits (length (snd kv)) @ '':'' @ snd kv) params)"

definition deriveKey :: "string \<Rightarrow> (string \<times> string) list \<Rightarrow> string" where
  "deriveKey namespace params = namespace @ ''|'' @ serialize (sort_key fst params)"

text \<open>
  Modelled from the spec: \<^verbatim>\<open>SQLiteCache.get\<close>, which is not part of the sources. The spec,
  section 4.1: it returns the value stored for the key or absent, and it does not raise;
  an error of the storage layer is treated as absent. A cache that raises all the same,
  against the spec, is the field \<open>SQLiteCache\<close> of the collaborators; one whose
  \<^verbatim>\<open>set\<close> raises is the field \<open>set_raises\<close>.
\<close>

definition cache_get ::
  "env \<Rightarrow> world \<Rightarrow> string \<Rightarrow> (string \<times> string) list \<Rightarrow> json option \<times> world" where
  "cache_get E w namespace params =
     (let key = deriveKey namespace params in
      (if storage_ok E then store w key else None, w\<lparr>lookups := lookups w @ [key]\<rparr>))"

text \<open>
  Modelled from the spec: \<^verbatim>\<open>SQLiteCache.set\<close>, which is not part of the sources. The spec,
  section 4.1: it overwrites the entry of the key, and a failure to persist is logged,
  not raised.
\<close>

definition cache_set ::
  "env \<Rightarrow> world \<Rightarrow> string \<Rightarrow> (string \<times> string) list \<Rightarrow> json \<Rightarrow> world" where
  "cache_set E w namespace params v =
     (if storage_ok E then w\<lparr>store := (store w)(deriveKey namespace params \<mapsto> v)\<rparr> else w)"

subsection \<open>The tool\<close>

text \<open>\<^verbatim>\<open>wrap_response\<close>, lines 55 to 57: the item assignment raises on a value that is no dict.\<close>

fun wrap_response :: "json \<Rightarrow> exn + json" where
  "wrap_response (JObj kvs) = Inr (JObj (dict_set ''instruction'' (JStr response_instruction) kvs))"
| "wrap_response (JList xs) = Inl (TypeError ''list indices must be integers or slices, not str'')"
| "wrap_response v = Inl (TypeError (quoted (type_name v) @ '' object does not support item assignment''))"

text \<open>
  Lines 66 to 68. A missing key of \<^verbatim>\<open>hass.data\<close> raises \<^verbatim>\<open>KeyError\<close>; \<^verbatim>\<open>next\<close> on
  an empty iterator raises \<^verbatim>\<open>StopIteration\<close>, which leaves a coroutine as a
  \<^verbatim>\<open>RuntimeError\<close>. The options of the first entry override the settings.
\<close>

definition read_config :: "const_py \<Rightarrow> hass \<Rightarrow> exn + (string \<rightharpoonup> string)" where
  "read_config K h =
     (case hass_data h (DOMAIN K) of
        None \<Rightarrow> Inl (KeyError (quoted (DOMAIN K)))
      | Some d \<Rightarrow>
          (let config_data = (case d ''config'' of None \<Rightarrow> Map.empty | Some c \<Rightarrow> c) in
           case async_entries h (DOMAIN K) of
             [] \<Rightarrow> Inl (Raised ''RuntimeError'' ''coroutine raised StopIteration'')
           | entry # _ \<Rightarrow> Inr (config_data ++ entry)))"

text \<open>Line 98: the parameters that identify the cache entry of a call.\<close>

definition cache_params :: "string \<Rightarrow> string \<Rightarrow> (string \<times> string) list" where
  "cache_params model query = [(''model'', model), (''query'', query)]"

text \<open>Line 81, lines 83 to 93 and the arguments of line 105.\<close>

definition url :: "string \<Rightarrow> string \<Rightarrow> string" where
  "url model api_key =
     ''https://generativelanguage.googleapis.com/v1beta/models/'' @ model @
     '':generateContent?key='' @ api_key"

definition payload :: "string \<Rightarrow> json" where
  "payload query =
     JObj [(''contents'', JList [JObj [(''parts'', JList [JObj [(''text'', JStr query)]])]]),
           (''tools'', JList [JObj [(''google_search'', JObj [])]]),
           (''systemInstruction'',
              JObj [(''parts'', JList [JObj [(''text'', JStr system_instruction)]])])]"

definition make_request :: "string \<Rightarrow> string \<Rightarrow> string \<Rightarrow> request" where
  "make_request api_key model query =
     \<lparr>req_url = url model api_key, req_json = payload query, req_timeout = 15\<rparr>"

text \<open>Lines 119 to 121: the text of the first part of the candidate.\<close>

definition extract_content :: "json \<Rightarrow> exn + json" where
  "extract_content candidate =
     (case py_get candidate ''content'' (JObj []) of Inl e \<Rightarrow> Inl e | Inr c \<Rightarrow>
     (case py_get c ''parts'' (JList [JObj []]) of Inl e \<Rightarrow> Inl e | Inr parts \<Rightarrow>
     (case py_index0 parts of Inl e \<Rightarrow> Inl e | Inr part \<Rightarrow>
      py_get part ''text'' (JStr []))))"

text \<open>Lines 127 to 136: the loop over the attributions, \<open>sources\<close> being the list built so far.\<close>

fun collect_sources :: "json list \<Rightarrow> json list \<Rightarrow> exn + json list" where
  "collect_sources [] sources = Inr sources"
| "collect_sources (attr # rest) sources =
     (case py_get attr ''web'' (JObj []) of Inl e \<Rightarrow> Inl e | Inr web_source \<Rightarrow>
      if truthy web_source then
        (case py_get web_source ''title'' JNull of Inl e \<Rightarrow> Inl e | Inr title \<Rightarrow>
        (case py_get web_source ''uri'' JNull of Inl e \<Rightarrow> Inl e | Inr uri \<Rightarrow>
         collect_sources rest (sources @ [JObj [(''title'', title), (''url'', uri)]])))
      else collect_sources rest sources)"

text \<open>Lines 124 to 136.\<close>

definition extract_sources :: "json \<Rightarrow> exn + json list" where
  "extract_sources candidate =
     (case py_get candidate ''groundingMetadata'' (JObj []) of Inl e \<Rightarrow> Inl e | Inr metadata \<Rightarrow>
     (case py_get metadata ''groundingAttributions'' (JList []) of Inl e \<Rightarrow> Inl e
      | Inr attributions \<Rightarrow>
     (case py_iter attributions of Inl e \<Rightarrow> Inl e | Inr attrs \<Rightarrow>
      collect_sources attrs [])))"

text \<open>
  Lines 114 to 144, what is made of the parsed body: a \<open>Results\<close> value is returned as
  it is (lines 116 and 139), a \<open>Response\<close> value is the dict of line 141, which is
  stored and wrapped.
\<close>

datatype parsed = Results json | Response json

definition parse_data :: "json \<Rightarrow> exn + parsed" where
  "parse_data data =
     (case py_get data ''candidates'' (JList []) of Inl e \<Rightarrow> Inl e | Inr candidates \<Rightarrow>
      if \<not> truthy candidates then Inr (Results (JObj [(''results'', JStr information_not_found)]))
      else
       (case py_index0 candidates of Inl e \<Rightarrow> Inl e | Inr candidate \<Rightarrow>
       (case extract_content candidate of Inl e \<Rightarrow> Inl e | Inr content \<Rightarrow>
       (case extract_sources candidate of Inl e \<Rightarrow> Inl e | Inr sources \<Rightarrow>
        if \<not> truthy content \<and> sources = []
        then Inr (Results (JObj [(''results'', JStr ''No information found.'')]))
        else Inr (Response (JObj [(''answer_summary'', content),
                                  (''sources'', JList (take 3 sources))]))))))"

text \<open>
  Lines 104 to 147: the request and the handling of the response, after a cache miss.
  For a status other than 200, line 107 reads the body before line 109 returns.
\<close>

definition fetch ::
  "env \<Rightarrow> string \<Rightarrow> string \<Rightarrow> string \<Rightarrow> world \<Rightarrow> (exn + json) \<times> world" where
  "fetch E api_key model query w1 =
     (let req = make_request api_key model query;
          w2 = w1\<lparr>requests := requests w1 @ [req]\<rparr>
      in case post E req of
           HttpRaises e \<Rightarrow> (Inl e, w2)
         | HttpResponse resp \<Rightarrow>
             if resp_status resp \<noteq> 200
             then
              (case resp_text resp of
                 Inl e \<Rightarrow> (Inl e, w2)
               | Inr body \<Rightarrow>
                   (Inr (JObj [(''error'',
                      JStr (''Search error: status '' @ str_int (resp_status resp)))]), w2))
             else
              (case resp_json resp of Inl e \<Rightarrow> (Inl e, w2) | Inr data \<Rightarrow>
              (case parse_data data of
                 Inl e \<Rightarrow> (Inl e, w2)
               | Inr (Results r) \<Rightarrow> (Inr r, w2)
               | Inr (Response response) \<Rightarrow>
                  (case set_raises E of
                     Some e \<Rightarrow> (Inl e, w2)
                   | None \<Rightarrow>
                       (wrap_response response,
                        cache_set E w2 this_module (cache_params model query) response)))))"

text \<open>
  Lines 96 to 147: the body of the \<^verbatim>\<open>try\<close> statement. A lookup that raises was made
  all the same.
\<close>

definition try_body ::
  "env \<Rightarrow> string \<Rightarrow> string \<Rightarrow> string \<Rightarrow> world \<Rightarrow> (exn + json) \<times> world" where
  "try_body E api_key model query w =
     (case SQLiteCache E of
        Some (ConstructorRaises e) \<Rightarrow> (Inl e, w)
      | Some (GetRaises e) \<Rightarrow> (Inl e, snd (cache_get E w this_module (cache_params model query)))
      | None \<Rightarrow>
          (case cache_get E w this_module (cache_params model query) of
             (cached_response, w1) \<Rightarrow>
               (case cached_response of
                  None \<Rightarrow> fetch E api_key model query w1
                | Some c \<Rightarrow>
                    if truthy c then (wrap_response c, w1)
                    else fetch E api_key model query w1)))"

text \<open>Lines 149 to 151: what the handler returns for the exception it caught.\<close>

definition except_Exception :: "exn \<Rightarrow> json" where
  "except_Exception e =
     JObj [(''error'', JStr (''An error occurred during search: '' @ str_exn e))]"

text \<open>Line 73: the configured model, or the default one.\<close>

definition get_model :: "const_py \<Rightarrow> (string \<rightharpoonup> string) \<Rightarrow> string" where
  "get_model K config_data =
     (case config_data (CONF_GOOGLE_SEARCH_MODEL K) of
        None \<Rightarrow> ''gemini-2.0-flash-exp''
      | Some m \<Rightarrow> m)"

text \<open>
  Lines 75 to 151, once the settings and the query are read. The handler of line 149
  catches the instances of \<^verbatim>\<open>Exception\<close>; any other exception leaves the call.
\<close>

definition search ::
  "env \<Rightarrow> string option \<Rightarrow> string \<Rightarrow> string \<Rightarrow> world \<Rightarrow> (exn + json) \<times> world" where
  "search E api_key model query w =
     (case api_key of
        None \<Rightarrow> (Inr (JObj [(''error'', JStr ''Google Search API key not configured'')]), w)
      | Some key \<Rightarrow>
          if key = []
          then (Inr (JObj [(''error'', JStr ''Google Search API key not configured'')]), w)
          else
            (case try_body E key model query w of
               (Inl e, w') \<Rightarrow>
                 if is_Exception e then (Inr (except_Exception e), w') else (Inl e, w')
             | (Inr v, w') \<Rightarrow> (Inr v, w')))"

text \<open>
  \<^verbatim>\<open>async_call\<close>, lines 59 to 151. The result is \<open>Inl e\<close> when the exception \<open>e\<close> leaves
  the call, and \<open>Inr v\<close> when the call returns \<open>v\<close>.
\<close>

definition async_call ::
  "const_py \<Rightarrow> env \<Rightarrow> hass \<Rightarrow> tool_input \<Rightarrow> world \<Rightarrow> (exn + json) \<times> world" where
  "async_call K E h ti w =
     (case read_config K h of Inl e \<Rightarrow> (Inl e, w) | Inr config_data \<Rightarrow>
     (case tool_args ti ''query'' of
        None \<Rightarrow> (Inl (KeyError (quoted ''query'')), w)
      | Some query \<Rightarrow>
          (let api_key = config_data (CONF_GOOGLE_SEARCH_API_KEY K);
               model = get_model K config_data
           in search E api_key model query w)))"

section \<open>Notions used in the statements\<close>

text \<open>What the lookup of line 99 returns for a model and a query.\<close>

definition cache_entry :: "env \<Rightarrow> world \<Rightarrow> string \<Rightarrow> string \<Rightarrow> json option" where
  "cache_entry E w model query = fst (cache_get E w this_module (cache_params model query))"

text \<open>The test of line 101: an entry is present and truthy.\<close>

fun is_hit :: "json option \<Rightarrow> bool" where
  "is_hit None = False"
| "is_hit (Some c) = truthy c"

text \<open>The state after the lookup of line 99, and after the request of line 105.\<close>

definition looked_up :: "world \<Rightarrow> string \<Rightarrow> string \<Rightarrow> world" where
  "looked_up w model query =
     w\<lparr>lookups := lookups w @ [deriveKey this_module (cache_params model query)]\<rparr>"

definition requested :: "world \<Rightarrow> string \<Rightarrow> string \<Rightarrow> string \<Rightarrow> world" where
  "requested w api_key model query =
     (looked_up w model query)\<lparr>requests := requests w @ [make_request api_key model query]\<rparr>"

text \<open>
  The value of a field of a dict; \<^verbatim>\<open>None\<close> when the field is absent or the value is no
  dict.
\<close>

definition field :: "string \<Rightarrow> json \<Rightarrow> json" where
  "field k v =
     (case v of
        JObj kvs \<Rightarrow> (case map_of kvs k of None \<Rightarrow> JNull | Some x \<Rightarrow> x)
      | _ \<Rightarrow> JNull)"

text \<open>
  The grounding attributions of a parsed body, in the order of the API: the list
  \<^verbatim>\<open>candidates[0].groundingMetadata.groundingAttributions\<close>, empty when it is absent.
\<close>

definition candidate_attributions :: "json \<Rightarrow> json list" where
  "candidate_attributions candidate =
     (case field ''groundingAttributions'' (field ''groundingMetadata'' candidate) of
        JList attrs \<Rightarrow> attrs
      | _ \<Rightarrow> [])"

definition attributions_of :: "json \<Rightarrow> json list" where
  "attributions_of data =
     (case field ''candidates'' data of
        JList (candidate # others) \<Rightarrow> candidate_attributions candidate
      | _ \<Rightarrow> [])"

text \<open>
  The citation of an attribution: the title and the URL of its \<^verbatim>\<open>web\<close> object, each
  \<^verbatim>\<open>None\<close> when it is missing.
\<close>

definition citation :: "json \<Rightarrow> json" where
  "citation attr =
     JObj [(''title'', field ''title'' (field ''web'' attr)),
           (''url'', field ''uri'' (field ''web'' attr))]"

text \<open>The test of line 130: the attribution has a \<^verbatim>\<open>web\<close> value that is truthy.\<close>

definition has_web :: "json \<Rightarrow> bool" where
  "has_web attr = truthy (field ''web'' attr)"



text \<open>The keys of a dict, in insertion order; a value that is no dict has none.\<close>

definition keys :: "json \<Rightarrow> string list" where
  "keys v = (case v of JObj kvs \<Rightarrow> map fst kvs | _ \<Rightarrow> [])"

definition has_key :: "string \<Rightarrow> json \<Rightarrow> bool" where
  "has_key k v = (k \<in> set (keys v))"

text \<open>
  The three shapes of a result, read by their keys: a summary with its sources and the
  instruction, the no-information object, and the error object.
\<close>

definition well_formed :: "json \<Rightarrow> bool" where
  "well_formed v =
     (keys v = [''answer_summary'', ''sources'', ''instruction''] \<or>
      keys v = [''results''] \<or>
      keys v = [''error''])"

text \<open>
  The cache entry of a call is absent or an object that line 146 stored: a dict with
  the keys of line 141.
\<close>

fun stored_summary :: "json option \<Rightarrow> bool" where
  "stored_summary None = True"
| "stored_summary (Some c) = (keys c = [''answer_summary'', ''sources''])"

text \<open>
  The exceptions the collaborators of an invocation raise: those of the cache object,
  and those of an outcome of the HTTP call.
\<close>

definition cache_exns :: "env \<Rightarrow> exn list" where
  "cache_exns E =
     (case SQLiteCache E of
        None \<Rightarrow> []
      | Some (ConstructorRaises e) \<Rightarrow> [e]
      | Some (GetRaises e) \<Rightarrow> [e]) @
     (case set_raises E of None \<Rightarrow> [] | Some e \<Rightarrow> [e])"

definition outcome_exns :: "http_outcome \<Rightarrow> exn list" where
  "outcome_exns outcome =
     (case outcome of
        HttpRaises e \<Rightarrow> [e]
      | HttpResponse resp \<Rightarrow>
          (case resp_text resp of Inl e \<Rightarrow> [e] | Inr body \<Rightarrow> []) @
          (case resp_json resp of Inl e \<Rightarrow> [e] | Inr data \<Rightarrow> []))"

text \<open>
  A valid attribution: a dict whose \<^verbatim>\<open>web\<close> value, when it is truthy, is a dict, with
  or without a title and a URL.
\<close>

definition valid_attribution :: "json \<Rightarrow> bool" where
  "valid_attribution attr =
     (case attr of
        JObj kvs \<Rightarrow> (case field ''web'' attr of JObj web \<Rightarrow> True | v \<Rightarrow> \<not> truthy v)
      | _ \<Rightarrow> False)"

subsection \<open>Example inputs\<close>

text \<open>
  An installation whose settings hold an old API key and whose first config entry sets
  the key \<open>key\<close> and the model \<open>m\<close>; a call with the query \<open>weather\<close>; a cache that
  is empty and one that holds a summary for that call; a server that cannot be reached.
\<close>

definition example_const :: const_py where
  "example_const = \<lparr>DOMAIN = ''llm_intents'',
     CONF_GOOGLE_SEARCH_API_KEY = ''google_search_api_key'',
     CONF_GOOGLE_SEARCH_MODEL = ''google_search_model''\<rparr>"

definition example_hass :: "string \<Rightarrow> hass" where
  "example_hass key =
     \<lparr>hass_data = [''llm_intents'' \<mapsto> [''config'' \<mapsto> [''google_search_api_key'' \<mapsto> ''old'']]],
      async_entries = (\<lambda>d. if d = ''llm_intents''
                              then [[''google_search_api_key'' \<mapsto> key, ''google_search_model'' \<mapsto> ''m'']]
                              else [])\<rparr>"

definition example_world :: world where
  "example_world = \<lparr>store = Map.empty, lookups = [], requests = []\<rparr>"

definition example_env :: "http_outcome \<Rightarrow> env" where
  "example_env outcome =
     \<lparr>SQLiteCache = None, set_raises = None, storage_ok = True, post = (\<lambda>req. outcome)\<rparr>"

definition example_input :: tool_input where
  "example_input = \<lparr>tool_args = [''query'' \<mapsto> ''weather'']\<rparr>"

definition example_config :: "string \<Rightarrow> (string \<rightharpoonup> string)" where
  "example_config key =
     [''google_search_api_key'' \<mapsto> ''old''] ++
     [''google_search_api_key'' \<mapsto> key, ''google_search_model'' \<mapsto> ''m'']"

definition example_summary :: json where
  "example_summary = JObj [(''answer_summary'', JStr ''sunny''), (''sources'', JList [])]"

definition example_cached_world :: world where
  "example_cached_world =
     \<lparr>store = [deriveKey this_module (cache_params ''m'' ''weather'') \<mapsto> example_summary],
      lookups = [], requests = []\<rparr>"

definition unreachable :: env where
  "unreachable = example_env (HttpRaises (Raised ''ClientConnectorError'' ''unreachable''))"

text \<open>
  Responses of the server: an error with a body that is no JSON, a response of status
  204 whose body would parse as an answer, and an answer of status 200 without candidates.
\<close>

definition server_error :: response where
  "server_error =
     \<lparr>resp_status = 500, resp_text = Inr ''upstream stack trace'',
      resp_json = Inl (Raised ''ContentTypeError'' ''unexpected mimetype: text/html'')\<rparr>"

definition good_data :: json where
  "good_data =
     JObj [(''candidates'', JList [JObj [(''content'',
              JObj [(''parts'', JList [JObj [(''text'', JStr ''sunny'')]])])]])]"

definition no_content :: response where
  "no_content = \<lparr>resp_status = 204, resp_text = Inr [], resp_json = Inr good_data\<rparr>"

definition no_candidates :: response where
  "no_candidates =
     \<lparr>resp_status = 200, resp_text = Inr ''{\"candidates\": []}'',
      resp_json = Inr (JObj [(''candidates'', JList [])])\<rparr>"

text \<open>
  Answers of the server with status 200: one whose first candidate has an empty list of
  parts, one with an attribution whose \<^verbatim>\<open>web\<close> object is empty, and one with five
  attributions, the second without a title.
\<close>

definition empty_parts :: response where
  "empty_parts =
     \<lparr>resp_status = 200, resp_text = Inr [],
      resp_json = Inr (JObj [(''candidates'',
        JList [JObj [(''content'', JObj [(''parts'', JList [])])]])])\<rparr>"

definition answer_candidate :: "json list \<Rightarrow> json" where
  "answer_candidate attributions =
     JObj [(''content'', JObj [(''parts'', JList [JObj [(''text'', JStr ''sunny'')]])]),
           (''groundingMetadata'', JObj [(''groundingAttributions'', JList attributions)])]"

definition answer :: "json list \<Rightarrow> json" where
  "answer attributions = JObj [(''candidates'', JList [answer_candidate attributions])]"

definition web :: "(string \<times> json) list \<Rightarrow> json" where
  "web entries = JObj [(''web'', JObj entries)]"


definition five_attributions :: "json list" where
  "five_attributions =
     [web [(''title'', JStr ''A''), (''uri'', JStr ''https://a.example'')],
      web [(''uri'', JStr ''https://b.example'')],
      web [(''title'', JStr ''C''), (''uri'', JStr ''https://c.example'')],
      web [(''title'', JStr ''D''), (''uri'', JStr ''https://d.example'')],
      web [(''title'', JStr ''E''), (''uri'', JStr ''https://e.example'')]]"

definition ok_response :: "json \<Rightarrow> response" where
  "ok_response data = \<lparr>resp_status = 200, resp_text = Inr [], resp_json = Inr data\<rparr>"

text \<open>
  Responses whose body cannot be read, a cancelled request, and a cache whose
  \<^verbatim>\<open>get\<close> raises.
\<close>

definition unreadable :: "int \<Rightarrow> response" where
  "unreadable status =
     \<lparr>resp_status = status,
      resp_text = Inl (Raised ''ClientPayloadError'' ''Response payload is not completed''),
      resp_json = Inl (Raised ''ClientPayloadError'' ''Response payload is not completed'')\<rparr>"

definition cancelled :: env where
  "cancelled = example_env (HttpRaises (BaseRaised ''CancelledError'' []))"

definition broken_cache :: env where
  "broken_cache =
     \<lparr>SQLiteCache = Some (GetRaises (Raised ''OperationalError'' ''database is locked'')),
      set_raises = None, storage_ok = True,
      post = (\<lambda>req. HttpRaises (Raised ''ClientConnectorError'' ''unreachable''))\<rparr>"

text \<open>A host without data and config entries for the domain, and a call without arguments.\<close>

definition not_set_up :: hass where
  "not_set_up = \<lparr>hass_data = Map.empty, async_entries = (\<lambda>d. [])\<rparr>"

definition no_arguments :: tool_input where
  "no_arguments = \<lparr>tool_args = Map.empty\<rparr>"

section \<open>Properties\<close>

declare digits.simps [simp del]

subsection \<open>The paths through the call\<close>

lemma async_call_reached:
  assumes "read_config K h = Inr config_data"
    and "tool_args ti ''query'' = Some query"
    and "config_data (CONF_GOOGLE_SEARCH_API_KEY K) = Some api_key"
    and "api_key \<noteq> []"
  shows "async_call K E h ti w =
     (case try_body E api_key (get_model K config_data) query w of
        (Inl e, w') \<Rightarrow> if is_Exception e then (Inr (except_Exception e), w') else (Inl e, w')
      | (Inr v, w') \<Rightarrow> (Inr v, w'))"
  using assms by (simp add: async_call_def search_def)

lemma try_body_fails:
  "SQLiteCache E = Some (ConstructorRaises e) \<Longrightarrow> try_body E api_key model query w = (Inl e, w)"
  "SQLiteCache E = Some (GetRaises e) \<Longrightarrow>
     try_body E api_key model query w = (Inl e, looked_up w model query)"
  by (simp_all add: try_body_def cache_get_def looked_up_def Let_def)

lemma try_body_miss:
  assumes "SQLiteCache E = None" and "\<not> is_hit (cache_entry E w model query)"
  shows "try_body E api_key model query w = fetch E api_key model query (looked_up w model query)"
  using assms
  by (cases "cache_entry E w model query")
     (simp_all add: try_body_def cache_entry_def cache_get_def looked_up_def Let_def)

lemma try_body_hit:
  assumes "SQLiteCache E = None" and "cache_entry E w model query = Some c" and "truthy c"
  shows "try_body E api_key model query w = (wrap_response c, looked_up w model query)"
  using assms
  by (simp add: try_body_def cache_entry_def cache_get_def looked_up_def Let_def)

lemma fetch_status:
  assumes "post E (make_request api_key model query) = HttpResponse resp"
    and "resp_status resp \<noteq> 200"
  shows "fetch E api_key model query (looked_up w model query) =
      (case resp_text resp of
         Inl e \<Rightarrow> Inl e
       | Inr body \<Rightarrow>
           Inr (JObj [(''error'', JStr (''Search error: status '' @ str_int (resp_status resp)))]),
       requested w api_key model query)"
  using assms
  by (simp add: fetch_def Let_def requested_def looked_up_def split: sum.splits)

lemma fetch_raises:
  assumes "post E (make_request api_key model query) = HttpRaises e"
  shows "fetch E api_key model query (looked_up w model query) =
      (Inl e, requested w api_key model query)"
  using assms by (simp add: fetch_def Let_def requested_def looked_up_def)

subsection \<open>The example inputs\<close>

lemma example_read_config:
  "read_config example_const (example_hass key) = Inr (example_config key)"
  by (simp add: read_config_def example_const_def example_hass_def example_config_def)

lemma example_api_key:
  "example_config key (CONF_GOOGLE_SEARCH_API_KEY example_const) = Some key"
  by (simp add: example_config_def example_const_def)

lemma example_model: "get_model example_const (example_config key) = ''m''"
  by (simp add: get_model_def example_config_def example_const_def)

lemma example_query: "tool_args example_input ''query'' = Some ''weather''"
  by (simp add: example_input_def)

lemma example_miss:
  "\<not> is_hit (cache_entry (example_env outcome) example_world model query)"
  by (simp add: cache_entry_def cache_get_def example_world_def Let_def)

lemma example_ctor: "SQLiteCache (example_env outcome) = None"
  by (simp add: example_env_def)

lemma example_post: "post (example_env outcome) req = outcome"
  by (simp add: example_env_def)

lemma str_int_500: "str_int 500 = ''500''"
  by code_simp

lemma str_int_204: "str_int 204 = ''204''"
  by code_simp

subsection \<open>The missing API key\<close>

text \<open>
  Claim C4. For every query, when the settings that were read hold no API key or an
  empty one, \<^verbatim>\<open>async_call\<close> returns the object \<^verbatim>\<open>{"error": ...}\<close> of line 77 and leaves
  the state as it was: no HTTP request is sent, the cache is neither looked up nor
  written, and the collaborators \<open>E\<close> are not consulted.
\<close>

theorem missing_api_key_short_circuit:
  assumes "read_config K h = Inr config_data"
    and "tool_args ti ''query'' = Some query"
    and "config_data (CONF_GOOGLE_SEARCH_API_KEY K) = None \<or>
         config_data (CONF_GOOGLE_SEARCH_API_KEY K) = Some []"
  shows "async_call K E h ti w =
           (Inr (JObj [(''error'', JStr ''Google Search API key not configured'')]), w)"
  using assms by (auto simp: async_call_def search_def)

theorem missing_api_key_short_circuit_witness:
  "read_config example_const (example_hass []) = Inr (example_config []) \<and>
   tool_args example_input ''query'' = Some ''weather'' \<and>
   example_config [] (CONF_GOOGLE_SEARCH_API_KEY example_const) = Some [] \<and>
   async_call example_const unreachable (example_hass []) example_input example_cached_world =
     (Inr (JObj [(''error'', JStr ''Google Search API key not configured'')]),
      example_cached_world)"
  using missing_api_key_short_circuit [OF example_read_config example_query,
      of "[]" unreachable example_cached_world]
  by (simp add: example_read_config example_query example_api_key)

subsection \<open>The cache hit\<close>

text \<open>
  Claim C3. When the cache holds an entry for the key built from the model and the
  query (a non-empty dict, as every stored summary is), \<^verbatim>\<open>async_call\<close> returns that
  entry with the field \<^verbatim>\<open>instruction\<close> set, sends no HTTP request and leaves the cache
  as it is, so the entry is still there for the next call.
\<close>

theorem cache_hit_no_request:
  assumes "read_config K h = Inr config_data"
    and "tool_args ti ''query'' = Some query"
    and "config_data (CONF_GOOGLE_SEARCH_API_KEY K) = Some api_key"
    and "api_key \<noteq> []"
    and "SQLiteCache E = None"
    and "cache_entry E w (get_model K config_data) query = Some (JObj kvs)"
    and "kvs \<noteq> []"
  shows "fst (async_call K E h ti w) =
           Inr (JObj (dict_set ''instruction'' (JStr response_instruction) kvs)) \<and>
         requests (snd (async_call K E h ti w)) = requests w \<and>
         store (snd (async_call K E h ti w)) = store w"
  using assms
  by (simp add: async_call_reached try_body_hit looked_up_def)

theorem cache_hit_no_request_witness:
  "read_config example_const (example_hass ''secret'') = Inr (example_config ''secret'') \<and>
   tool_args example_input ''query'' = Some ''weather'' \<and>
   example_config ''secret'' (CONF_GOOGLE_SEARCH_API_KEY example_const) = Some ''secret'' \<and>
   ''secret'' \<noteq> [] \<and>
   SQLiteCache unreachable = None \<and>
   cache_entry unreachable example_cached_world
       (get_model example_const (example_config ''secret'')) ''weather'' =
     Some example_summary \<and>
   fst (async_call example_const unreachable (example_hass ''secret'') example_input
          example_cached_world) =
     Inr (JObj [(''answer_summary'', JStr ''sunny''), (''sources'', JList []),
                (''instruction'', JStr response_instruction)]) \<and>
   requests (snd (async_call example_const unreachable (example_hass ''secret'') example_input
          example_cached_world)) = []"
proof -
  have entry: "cache_entry unreachable example_cached_world
      (get_model example_const (example_config ''secret'')) ''weather'' =
      Some (JObj [(''answer_summary'', JStr ''sunny''), (''sources'', JList [])])"
    by (simp add: example_model cache_entry_def cache_get_def example_env_def unreachable_def
        example_cached_world_def example_summary_def Let_def)
  have ctor: "SQLiteCache unreachable = None"
    by (simp add: example_env_def unreachable_def)
  from cache_hit_no_request [OF example_read_config example_query example_api_key _ ctor entry]
  show ?thesis
    using entry ctor
    by (simp add: example_read_config example_query example_api_key example_summary_def
        example_cached_world_def)
qed

subsection \<open>A status other than 200\<close>

text \<open>
  Line 107 reads the body for the log before line 109 returns, inside the \<^verbatim>\<open>try\<close>
  statement: when the read raises, the exception takes the place of the status error.
\<close>

lemma status_call:
  assumes "read_config K h = Inr config_data"
    and "tool_args ti ''query'' = Some query"
    and "config_data (CONF_GOOGLE_SEARCH_API_KEY K) = Some api_key"
    and "api_key \<noteq> []"
    and "SQLiteCache E = None"
    and "\<not> is_hit (cache_entry E w (get_model K config_data) query)"
    and "post E (make_request api_key (get_model K config_data) query) = HttpResponse resp"
    and "resp_status resp \<noteq> 200"
  shows "async_call K E h ti w =
           (case resp_text resp of
              Inl e \<Rightarrow> if is_Exception e then Inr (except_Exception e) else Inl e
            | Inr body \<Rightarrow>
                Inr (JObj [(''error'',
                  JStr (''Search error: status '' @ str_int (resp_status resp)))]),
            requested w api_key (get_model K config_data) query)"
  using assms
  by (simp add: async_call_reached try_body_miss fetch_status split: sum.splits)

lemma example_unreadable:
  assumes "status \<noteq> 200"
  shows "async_call example_const (example_env (HttpResponse (unreadable status)))
           (example_hass ''secret'') example_input example_world =
         (Inr (JObj [(''error'',
            JStr ''An error occurred during search: Response payload is not completed'')]),
          requested example_world ''secret'' ''m'' ''weather'')"
proof -
  have "resp_status (unreadable status) \<noteq> 200"
    using assms by (simp add: unreadable_def)
  from status_call [OF example_read_config example_query example_api_key _ example_ctor
      example_miss example_post this]
  show ?thesis
    by (simp add: example_model unreadable_def except_Exception_def)
qed

text \<open>
  Claim C5, amended. When the request is sent (the API key is configured and the cache
  holds no entry), the server answers with a status \<open>c\<close> other than 200, which every
  non-success status is, and the body of the response is read without an exception,
  \<^verbatim>\<open>async_call\<close> returns exactly \<^verbatim>\<open>{"error": "Search error: status c"}\<close>. The returned
  object is made of the status alone: the body that was read is no part of it.
\<close>

theorem http_error_status:
  assumes "read_config K h = Inr config_data"
    and "tool_args ti ''query'' = Some query"
    and "config_data (CONF_GOOGLE_SEARCH_API_KEY K) = Some api_key"
    and "api_key \<noteq> []"
    and "SQLiteCache E = None"
    and "\<not> is_hit (cache_entry E w (get_model K config_data) query)"
    and "post E (make_request api_key (get_model K config_data) query) = HttpResponse resp"
    and "resp_status resp \<noteq> 200"
    and "resp_text resp = Inr body"
  shows "fst (async_call K E h ti w) =
           Inr (JObj [(''error'', JStr (''Search error: status '' @ str_int (resp_status resp)))])"
  using assms by (simp add: status_call)

theorem http_error_status_witness:
  "read_config example_const (example_hass ''secret'') = Inr (example_config ''secret'') \<and>
   tool_args example_input ''query'' = Some ''weather'' \<and>
   example_config ''secret'' (CONF_GOOGLE_SEARCH_API_KEY example_const) = Some ''secret'' \<and>
   ''secret'' \<noteq> [] \<and>
   SQLiteCache (example_env (HttpResponse server_error)) = None \<and>
   \<not> is_hit (cache_entry (example_env (HttpResponse server_error)) example_world
            (get_model example_const (example_config ''secret'')) ''weather'') \<and>
   post (example_env (HttpResponse server_error))
     (make_request ''secret'' (get_model example_const (example_config ''secret'')) ''weather'') =
     HttpResponse server_error \<and>
   resp_status server_error \<noteq> 200 \<and>
   resp_text server_error = Inr ''upstream stack trace'' \<and>
   fst (async_call example_const (example_env (HttpResponse server_error))
          (example_hass ''secret'') example_input example_world) =
     Inr (JObj [(''error'', JStr ''Search error: status 500'')])"
proof -
  have status: "resp_status server_error = 500"
    and body: "resp_text server_error = Inr ''upstream stack trace''"
    by (simp_all add: server_error_def)
  from http_error_status [OF example_read_config example_query example_api_key _
      example_ctor example_miss example_post _ body]
  show ?thesis
    by (simp add: example_read_config example_query example_api_key example_ctor example_miss
        example_post status body str_int_500)
qed

text \<open>
  Claim C5 as it is stated fails on a response of status 500 whose body cannot be read:
  the exception of line 107 reaches the handler, which returns its own error object.
\<close>

theorem unreadable_body_counterexample:
  "resp_status (unreadable 500) = 500 \<and>
   fst (async_call example_const (example_env (HttpResponse (unreadable 500)))
          (example_hass ''secret'') example_input example_world) =
     Inr (JObj [(''error'',
       JStr ''An error occurred during search: Response payload is not completed'')])"
  by (simp add: example_unreadable) (simp add: unreadable_def)

text \<open>
  Claim C10, amended. The branch that parses the answer needs the status to be exactly
  200. For every other status, the success statuses 201 and 204 among them, and
  whatever JSON the body holds, the answer is not parsed and nothing is stored: the
  state is the one after the lookup and the request. The call returns
  \<^verbatim>\<open>{"error": "Search error: status <code>"}\<close> when the body is read without an
  exception; when the read raises, the exception takes the way of every exception of
  the \<^verbatim>\<open>try\<close> statement: the handler returns its error object for an instance of
  \<^verbatim>\<open>Exception\<close>.
\<close>

theorem only_status_200_is_parsed:
  assumes "read_config K h = Inr config_data"
    and "tool_args ti ''query'' = Some query"
    and "config_data (CONF_GOOGLE_SEARCH_API_KEY K) = Some api_key"
    and "api_key \<noteq> []"
    and "SQLiteCache E = None"
    and "\<not> is_hit (cache_entry E w (get_model K config_data) query)"
    and "post E (make_request api_key (get_model K config_data) query) = HttpResponse resp"
    and "resp_status resp \<noteq> 200"
  shows "async_call K E h ti w =
           (case resp_text resp of
              Inl e \<Rightarrow> if is_Exception e then Inr (except_Exception e) else Inl e
            | Inr body \<Rightarrow>
                Inr (JObj [(''error'',
                  JStr (''Search error: status '' @ str_int (resp_status resp)))]),
            requested w api_key (get_model K config_data) query)"
  using assms by (rule status_call)

theorem only_status_200_is_parsed_witness:
  "read_config example_const (example_hass ''secret'') = Inr (example_config ''secret'') \<and>
   tool_args example_input ''query'' = Some ''weather'' \<and>
   example_config ''secret'' (CONF_GOOGLE_SEARCH_API_KEY example_const) = Some ''secret'' \<and>
   ''secret'' \<noteq> [] \<and>
   SQLiteCache (example_env (HttpResponse no_content)) = None \<and>
   \<not> is_hit (cache_entry (example_env (HttpResponse no_content)) example_world
            (get_model example_const (example_config ''secret'')) ''weather'') \<and>
   post (example_env (HttpResponse no_content))
     (make_request ''secret'' (get_model example_const (example_config ''secret'')) ''weather'') =
     HttpResponse no_content \<and>
   resp_status no_content \<noteq> 200 \<and>
   resp_json no_content = Inr good_data \<and>
   async_call example_const (example_env (HttpResponse no_content))
          (example_hass ''secret'') example_input example_world =
     (Inr (JObj [(''error'', JStr ''Search error: status 204'')]),
      requested example_world ''secret'' ''m'' ''weather'') \<and>
   store (requested example_world ''secret'' ''m'' ''weather'') = Map.empty"
proof -
  have status: "resp_status no_content = 204" and body: "resp_json no_content = Inr good_data"
    and read: "resp_text no_content = Inr []"
    by (simp_all add: no_content_def)
  have unchanged: "store (requested example_world ''secret'' ''m'' ''weather'') = Map.empty"
    by (simp add: requested_def looked_up_def example_world_def)
  from only_status_200_is_parsed [OF example_read_config example_query example_api_key _
      example_ctor example_miss example_post, where resp = no_content]
  show ?thesis
    by (simp add: example_read_config example_query example_api_key example_ctor example_miss
        example_post status body read str_int_204 example_model unchanged)
qed

text \<open>
  Claim C10 as it is stated fails on a response of status 201 whose body cannot be
  read: the returned object is the one of the handler, not the status error.
\<close>

theorem unreadable_201_counterexample:
  "resp_status (unreadable 201) = 201 \<and>
   async_call example_const (example_env (HttpResponse (unreadable 201)))
          (example_hass ''secret'') example_input example_world =
     (Inr (JObj [(''error'',
        JStr ''An error occurred during search: Response payload is not completed'')]),
      requested example_world ''secret'' ''m'' ''weather'')"
  by (simp add: example_unreadable) (simp add: unreadable_def)

subsection \<open>An answer without candidates\<close>

lemma parse_data_no_candidates:
  assumes "map_of kvs ''candidates'' = None \<or> map_of kvs ''candidates'' = Some (JList [])"
  shows "parse_data (JObj kvs) = Inr (Results (JObj [(''results'', JStr information_not_found)]))"
  using assms by (auto simp: parse_data_def)

lemma fetch_ok:
  assumes "post E (make_request api_key model query) = HttpResponse resp"
    and "resp_status resp = 200"
    and "resp_json resp = Inr data"
  shows "fetch E api_key model query (looked_up w model query) =
      (case parse_data data of
         Inl e \<Rightarrow> (Inl e, requested w api_key model query)
       | Inr (Results r) \<Rightarrow> (Inr r, requested w api_key model query)
       | Inr (Response response) \<Rightarrow>
           (case set_raises E of
              Some e \<Rightarrow> (Inl e, requested w api_key model query)
            | None \<Rightarrow>
                (wrap_response response,
                 cache_set E (requested w api_key model query) this_module
                   (cache_params model query) response)))"
  using assms
  by (simp add: fetch_def Let_def requested_def looked_up_def
      split: sum.splits parsed.splits option.splits)

text \<open>
  Claim C6. When the server answers with status 200 and a JSON object whose
  \<^verbatim>\<open>candidates\<close> are absent or an empty list, \<^verbatim>\<open>async_call\<close> returns the object
  \<^verbatim>\<open>{"results": ...}\<close> of line 116, which is neither an error nor a summary.
\<close>

theorem no_candidates_no_information:
  assumes "read_config K h = Inr config_data"
    and "tool_args ti ''query'' = Some query"
    and "config_data (CONF_GOOGLE_SEARCH_API_KEY K) = Some api_key"
    and "api_key \<noteq> []"
    and "SQLiteCache E = None"
    and "\<not> is_hit (cache_entry E w (get_model K config_data) query)"
    and "post E (make_request api_key (get_model K config_data) query) = HttpResponse resp"
    and "resp_status resp = 200"
    and "resp_json resp = Inr (JObj kvs)"
    and "map_of kvs ''candidates'' = None \<or> map_of kvs ''candidates'' = Some (JList [])"
  shows "fst (async_call K E h ti w) = Inr (JObj [(''results'', JStr information_not_found)])"
  using assms
  by (simp add: async_call_reached try_body_miss fetch_ok parse_data_no_candidates)

theorem no_candidates_no_information_witness:
  "read_config example_const (example_hass ''secret'') = Inr (example_config ''secret'') \<and>
   tool_args example_input ''query'' = Some ''weather'' \<and>
   example_config ''secret'' (CONF_GOOGLE_SEARCH_API_KEY example_const) = Some ''secret'' \<and>
   ''secret'' \<noteq> [] \<and>
   SQLiteCache (example_env (HttpResponse no_candidates)) = None \<and>
   \<not> is_hit (cache_entry (example_env (HttpResponse no_candidates)) example_world
            (get_model example_const (example_config ''secret'')) ''weather'') \<and>
   post (example_env (HttpResponse no_candidates))
     (make_request ''secret'' (get_model example_const (example_config ''secret'')) ''weather'') =
     HttpResponse no_candidates \<and>
   resp_status no_candidates = 200 \<and>
   resp_json no_candidates = Inr (JObj [(''candidates'', JList [])]) \<and>
   map_of [(''candidates'', JList [])] ''candidates'' = Some (JList []) \<and>
   fst (async_call example_const (example_env (HttpResponse no_candidates))
          (example_hass ''secret'') example_input example_world) =
     Inr (JObj [(''results'', JStr information_not_found)])"
proof -
  have status: "resp_status no_candidates = 200"
    and body: "resp_json no_candidates = Inr (JObj [(''candidates'', JList [])])"
    by (simp_all add: no_candidates_def)
  from no_candidates_no_information [OF example_read_config example_query example_api_key _
      example_ctor example_miss example_post status body]
  show ?thesis
    by (simp add: example_read_config example_query example_api_key example_ctor example_miss
        example_post status body)
qed

subsection \<open>Parsing the answer\<close>

text \<open>The operations on values raise instances of \<^verbatim>\<open>Exception\<close> only.\<close>

lemma py_get_Exception: "py_get v k d = Inl e \<Longrightarrow> is_Exception e"
  by (cases v) (auto simp: AttributeError_def)

lemma py_index0_Exception: "py_index0 v = Inl e \<Longrightarrow> is_Exception e"
  by (cases v rule: py_index0.cases) (auto simp: IndexError_def KeyError_def TypeError_def)

lemma py_iter_Exception: "py_iter v = Inl e \<Longrightarrow> is_Exception e"
  by (cases v) (auto simp: TypeError_def)

lemma wrap_response_Exception: "wrap_response v = Inl e \<Longrightarrow> is_Exception e"
  by (cases v) (auto simp: TypeError_def)

lemma collect_sources_Exception: "collect_sources attrs acc = Inl e \<Longrightarrow> is_Exception e"
  by (induction attrs arbitrary: acc)
     (auto split: sum.splits if_splits dest: py_get_Exception)

lemma extract_content_Exception: "extract_content candidate = Inl e \<Longrightarrow> is_Exception e"
  by (auto simp: extract_content_def split: sum.splits
      dest: py_get_Exception py_index0_Exception)

lemma extract_sources_Exception: "extract_sources candidate = Inl e \<Longrightarrow> is_Exception e"
  by (auto simp: extract_sources_def split: sum.splits
      dest: py_get_Exception py_iter_Exception collect_sources_Exception)

lemma parse_data_Exception: "parse_data data = Inl e \<Longrightarrow> is_Exception e"
  by (auto simp: parse_data_def split: sum.splits if_splits
      dest: py_get_Exception py_index0_Exception extract_content_Exception
        extract_sources_Exception)

lemma py_get_Inr:
  assumes "py_get v k d = Inr x"
  obtains kvs where "v = JObj kvs" and "x = (case map_of kvs k of None \<Rightarrow> d | Some y \<Rightarrow> y)"
  using assms by (cases v) auto

lemma py_get_None_field:
  assumes "py_get v k JNull = Inr x"
  shows "x = field k v"
  using assms by (cases v) (auto simp: field_def)

lemma py_get_web:
  assumes "py_get attr ''web'' (JObj []) = Inr web_source"
  shows "truthy web_source = has_web attr"
    and "truthy web_source \<Longrightarrow> web_source = field ''web'' attr"
  using assms by (cases attr; auto simp: field_def has_web_def split: option.splits)+

lemma collect_sources_citations:
  assumes "collect_sources attrs acc = Inr srcs"
  shows "srcs = acc @ map citation (filter has_web attrs)"
  using assms
proof (induction attrs arbitrary: acc)
  case Nil
  then show ?case by simp
next
  case (Cons attr rest)
  from Cons.prems obtain web_source where web: "py_get attr ''web'' (JObj []) = Inr web_source"
    by (auto split: sum.splits)
  show ?case
  proof (cases "truthy web_source")
    case False
    with Cons.prems web have "collect_sources rest acc = Inr srcs"
      by simp
    with Cons.IH False py_get_web(1) [OF web] show ?thesis
      by simp
  next
    case True
    with Cons.prems web obtain title uri
      where title: "py_get web_source ''title'' JNull = Inr title"
        and uri: "py_get web_source ''uri'' JNull = Inr uri"
        and rest: "collect_sources rest (acc @ [JObj [(''title'', title), (''url'', uri)]]) = Inr srcs"
      by (auto split: sum.splits)
    have "JObj [(''title'', title), (''url'', uri)] = citation attr"
      using py_get_None_field [OF title] py_get_None_field [OF uri] py_get_web(2) [OF web True]
      by (simp add: citation_def)
    with Cons.IH [OF rest] True py_get_web(1) [OF web] show ?thesis
      by simp
  qed
qed

lemma collect_sources_strings:
  assumes "collect_sources (map JStr xs) acc = Inr srcs"
  shows "xs = []"
  using assms by (cases xs) simp_all

lemma utf8_chars_Nil: "utf8_chars s = [] \<Longrightarrow> s = []"
  by (cases s) simp_all

lemma extract_sources_citations:
  assumes "extract_sources candidate = Inr srcs"
  shows "srcs = map citation (filter has_web (candidate_attributions candidate))"
proof -
  from assms obtain metadata attributions attrs
    where m: "py_get candidate ''groundingMetadata'' (JObj []) = Inr metadata"
      and a: "py_get metadata ''groundingAttributions'' (JList []) = Inr attributions"
      and i: "py_iter attributions = Inr attrs"
      and c: "collect_sources attrs [] = Inr srcs"
    by (auto simp: extract_sources_def split: sum.splits)
  from m obtain ckvs where candidate: "candidate = JObj ckvs"
    and metadata: "metadata = (case map_of ckvs ''groundingMetadata'' of None \<Rightarrow> JObj [] | Some y \<Rightarrow> y)"
    by (rule py_get_Inr)
  from a obtain mkvs where mobj: "metadata = JObj mkvs"
    and attributions: "attributions =
          (case map_of mkvs ''groundingAttributions'' of None \<Rightarrow> JList [] | Some y \<Rightarrow> y)"
    by (rule py_get_Inr)
  have srcs: "srcs = map citation (filter has_web attrs)"
    using collect_sources_citations [OF c] by simp
  have "attrs = [] \<or> attributions = JList attrs"
  proof (cases attributions)
    case (JList xs)
    with i show ?thesis by simp
  next
    case (JObj kvs)
    with i have "attrs = map JStr (map fst kvs)" by auto
    with c have "map fst kvs = []" using collect_sources_strings by blast
    with \<open>attrs = map JStr (map fst kvs)\<close> show ?thesis by simp
  next
    case (JStr s)
    with i have "attrs = map JStr (utf8_chars s)" by simp
    with c have "utf8_chars s = []" using collect_sources_strings by blast
    with \<open>attrs = map JStr (utf8_chars s)\<close> show ?thesis by simp
  qed (use i in simp_all)
  moreover have "attributions = JList attrs \<Longrightarrow> candidate_attributions candidate = attrs"
    using candidate metadata mobj attributions
    by (auto simp: candidate_attributions_def field_def split: option.splits)
  moreover have "attrs = [] \<Longrightarrow> map citation (filter has_web (candidate_attributions candidate)) = []"
  proof -
    assume "attrs = []"
    with i have "attributions = JList [] \<or> attributions = JObj [] \<or> attributions = JStr []"
      by (cases attributions) (auto dest: utf8_chars_Nil)
    then show ?thesis
      using candidate metadata mobj attributions
      by (auto simp: candidate_attributions_def field_def split: option.splits)
  qed
  ultimately show ?thesis
    using srcs by auto
qed

lemma parse_data_Response:
  assumes "parse_data data = Inr (Response r)"
  obtains content where
    "r = JObj [(''answer_summary'', content),
               (''sources'', JList (take 3 (map citation (filter has_web (attributions_of data)))))]"
proof -
  from assms obtain candidates candidate content sources
    where cs: "py_get data ''candidates'' (JList []) = Inr candidates"
      and t: "truthy candidates"
      and c: "py_index0 candidates = Inr candidate"
      and x: "extract_content candidate = Inr content"
      and s: "extract_sources candidate = Inr sources"
      and r: "r = JObj [(''answer_summary'', content), (''sources'', JList (take 3 sources))]"
    by (auto simp: parse_data_def split: sum.splits if_splits)
  from x obtain ckvs where candidate: "candidate = JObj ckvs"
    by (auto simp: extract_content_def split: sum.splits elim: py_get_Inr)
  from c candidate obtain others where "candidates = JList (candidate # others)"
    by (cases candidates rule: py_index0.cases) auto
  with cs have "attributions_of data = candidate_attributions candidate"
    by (auto simp: attributions_of_def field_def elim!: py_get_Inr split: option.splits)
  with extract_sources_citations [OF s] r that show thesis
    by simp
qed

lemma parse_data_Results:
  assumes "parse_data data = Inr (Results r)"
  shows "r = JObj [(''results'', JStr information_not_found)] \<or>
         r = JObj [(''results'', JStr ''No information found.'')]"
  using assms by (auto simp: parse_data_def split: sum.splits if_splits)

subsection \<open>The call on an answer of status 200\<close>

lemma ok_call:
  assumes "read_config K h = Inr config_data"
    and "tool_args ti ''query'' = Some query"
    and "config_data (CONF_GOOGLE_SEARCH_API_KEY K) = Some api_key"
    and "api_key \<noteq> []"
    and "SQLiteCache E = None"
    and "\<not> is_hit (cache_entry E w (get_model K config_data) query)"
    and "post E (make_request api_key (get_model K config_data) query) = HttpResponse resp"
    and "resp_status resp = 200"
    and "resp_json resp = Inr data"
  shows "async_call K E h ti w =
     (case parse_data data of
        Inl e \<Rightarrow>
          (Inr (except_Exception e), requested w api_key (get_model K config_data) query)
      | Inr (Results r) \<Rightarrow> (Inr r, requested w api_key (get_model K config_data) query)
      | Inr (Response response) \<Rightarrow>
          (case set_raises E of
             Some e \<Rightarrow>
               (if is_Exception e then Inr (except_Exception e) else Inl e,
                requested w api_key (get_model K config_data) query)
           | None \<Rightarrow>
               (case wrap_response response of
                  Inl e \<Rightarrow> Inr (except_Exception e)
                | Inr v \<Rightarrow> Inr v,
                cache_set E (requested w api_key (get_model K config_data) query) this_module
                  (cache_params (get_model K config_data) query) response)))"
proof -
  let ?m = "get_model K config_data"
  have reached: "async_call K E h ti w =
      (case fetch E api_key ?m query (looked_up w ?m query) of
         (Inl e, w') \<Rightarrow> if is_Exception e then (Inr (except_Exception e), w') else (Inl e, w')
       | (Inr v, w') \<Rightarrow> (Inr v, w'))"
    using assms(1-6) by (simp add: async_call_reached try_body_miss)
  show ?thesis
    unfolding reached fetch_ok [OF assms(7-9)]
    by (auto split: sum.splits parsed.splits option.splits
        dest: parse_data_Exception wrap_response_Exception)
qed

lemma example_call:
  assumes "resp_status resp = 200" and "resp_json resp = Inr data"
  shows "async_call example_const (example_env (HttpResponse resp)) (example_hass ''secret'')
           example_input example_world =
         (case parse_data data of
            Inl e \<Rightarrow> (Inr (except_Exception e), requested example_world ''secret'' ''m'' ''weather'')
          | Inr (Results r) \<Rightarrow> (Inr r, requested example_world ''secret'' ''m'' ''weather'')
          | Inr (Response response) \<Rightarrow>
              (case wrap_response response of
                 Inl e \<Rightarrow> Inr (except_Exception e)
               | Inr v \<Rightarrow> Inr v,
               cache_set (example_env (HttpResponse resp))
                 (requested example_world ''secret'' ''m'' ''weather'') this_module
                 (cache_params ''m'' ''weather'') response))"
proof -
  have "set_raises (example_env (HttpResponse resp)) = None"
    by (simp add: example_env_def)
  with ok_call [OF example_read_config example_query example_api_key _ example_ctor
      example_miss example_post assms]
  show ?thesis
    by (simp add: example_model split: sum.splits parsed.splits)
qed

lemma parse_answer:
  "parse_data (answer attrs) =
     (case collect_sources attrs [] of
        Inl e \<Rightarrow> Inl e
      | Inr sources \<Rightarrow>
          Inr (Response (JObj [(''answer_summary'', JStr ''sunny''),
                               (''sources'', JList (take 3 sources))])))"
  by (simp add: answer_def answer_candidate_def parse_data_def extract_content_def
      extract_sources_def split: sum.splits)

subsection \<open>The text of the first candidate\<close>

lemma parse_empty_parts:
  "parse_data (JObj [(''candidates'', JList [JObj [(''content'', JObj [(''parts'', JList [])])]])]) =
     Inl (IndexError ''list index out of range'')"
  by (simp add: parse_data_def extract_content_def)

text \<open>
  Claim C8. The text of the first candidate is the empty string when the content, the
  parts or the text are missing (\<open>extract_content_absent\<close> below), but not when the list
  of parts is present and empty: \<^verbatim>\<open>[][0]\<close> raises \<^verbatim>\<open>IndexError\<close> in line 120, the
  default \<^verbatim>\<open>[{}]\<close> of \<^verbatim>\<open>get\<close> applying to a missing key only, and the handler of line
  149 returns an error. The call on an answer of status 200 whose first candidate has
  the content \<^verbatim>\<open>{"parts": []}\<close>:
\<close>

theorem empty_parts_error:
  "fst (async_call example_const (example_env (HttpResponse empty_parts)) (example_hass ''secret'')
          example_input example_world) =
     Inr (JObj [(''error'', JStr ''An error occurred during search: list index out of range'')])"
proof -
  have "resp_status empty_parts = 200"
    and "resp_json empty_parts =
      Inr (JObj [(''candidates'', JList [JObj [(''content'', JObj [(''parts'', JList [])])]])])"
    by (simp_all add: empty_parts_def)
  then show ?thesis
    by (simp add: example_call parse_empty_parts except_Exception_def IndexError_def)
qed

lemma extract_content_absent:
  "map_of ckvs ''content'' = None \<Longrightarrow> extract_content (JObj ckvs) = Inr (JStr [])"
  "map_of ckvs ''content'' = Some (JObj kvs) \<Longrightarrow> map_of kvs ''parts'' = None \<Longrightarrow>
     extract_content (JObj ckvs) = Inr (JStr [])"
  "map_of ckvs ''content'' = Some (JObj kvs) \<Longrightarrow>
     map_of kvs ''parts'' = Some (JList (JObj pkvs # parts)) \<Longrightarrow> map_of pkvs ''text'' = None \<Longrightarrow>
     extract_content (JObj ckvs) = Inr (JStr [])"
  by (simp_all add: extract_content_def)

lemma extract_content_empty_parts:
  "map_of ckvs ''content'' = Some (JObj kvs) \<Longrightarrow> map_of kvs ''parts'' = Some (JList []) \<Longrightarrow>
     extract_content (JObj ckvs) = Inl (IndexError ''list index out of range'')"
  by (simp add: extract_content_def)

subsection \<open>The sources\<close>

lemma valid_attributionD:
  assumes "valid_attribution attr"
  shows "\<exists>kvs. attr = JObj kvs \<and> (has_web attr \<longrightarrow> (\<exists>web. field ''web'' attr = JObj web))"
proof (cases attr)
  case (JObj kvs)
  with assms have "has_web attr \<longrightarrow> (\<exists>web. field ''web'' attr = JObj web)"
    by (cases "field ''web'' attr") (simp_all add: valid_attribution_def has_web_def)
  with JObj show ?thesis
    by simp
qed (use assms in \<open>simp_all add: valid_attribution_def\<close>)

text \<open>
  The loop does not fail on valid attributions: a missing title or URL is no failure,
  and no attribution with a truthy \<^verbatim>\<open>web\<close> value is dropped.
\<close>

lemma collect_sources_total:
  assumes "list_all valid_attribution attrs"
  shows "collect_sources attrs acc = Inr (acc @ map citation (filter has_web attrs))"
  using assms
proof (induction attrs arbitrary: acc)
  case Nil
  then show ?case by simp
next
  case (Cons attr rest)
  from Cons.prems have "valid_attribution attr"
    by simp
  then obtain kvs where attr: "attr = JObj kvs"
    and web: "has_web attr \<longrightarrow> (\<exists>web. field ''web'' attr = JObj web)"
    using valid_attributionD by blast
  have rest: "collect_sources rest acc' = Inr (acc' @ map citation (filter has_web rest))" for acc'
    using Cons.IH [of acc'] Cons.prems by simp
  from attr obtain ws where ws: "py_get attr ''web'' (JObj []) = Inr ws"
    by simp
  show ?case
  proof (cases "has_web attr")
    case False
    with py_get_web(1) [OF ws] have "\<not> truthy ws"
      by simp
    with ws rest False show ?thesis
      by simp
  next
    case True
    with py_get_web [OF ws] have "truthy ws" and "ws = field ''web'' attr"
      by simp_all
    moreover from True web obtain wkvs where "field ''web'' attr = JObj wkvs"
      by blast
    ultimately have "py_get ws ''title'' JNull = Inr (field ''title'' (field ''web'' attr))"
      and "py_get ws ''uri'' JNull = Inr (field ''uri'' (field ''web'' attr))"
      by (simp_all add: field_def)
    with ws \<open>truthy ws\<close> rest True show ?thesis
      by (simp add: citation_def)
  qed
qed





lemma valid_five: "list_all valid_attribution five_attributions"
  by (simp add: five_attributions_def web_def valid_attribution_def field_def)

lemma has_web_five: "filter has_web five_attributions = five_attributions"
  by (simp add: five_attributions_def web_def has_web_def field_def)

lemma collect_five:
  "collect_sources five_attributions [] =
     Inr (map citation (filter has_web five_attributions))"
  using collect_sources_total [OF valid_five, of "[]"] by simp


lemma example_five:
  "fst (async_call example_const (example_env (HttpResponse (ok_response (answer five_attributions))))
          (example_hass ''secret'') example_input example_world) =
     Inr (JObj [(''answer_summary'', JStr ''sunny''),
                (''sources'', JList (take 3 (map citation (filter has_web five_attributions)))),
                (''instruction'', JStr response_instruction)])"
proof -
  have "resp_status (ok_response (answer five_attributions)) = 200"
    and "resp_json (ok_response (answer five_attributions)) = Inr (answer five_attributions)"
    by (simp_all add: ok_response_def)
  then show ?thesis
    by (simp add: example_call parse_answer collect_five)
qed



subsection \<open>The shapes of the returned object\<close>

lemma response_instruction_nonempty: "response_instruction \<noteq> []"
  by (simp add: response_instruction_def response_instruction_line_29_def)

lemma stored_summary_wrap:
  assumes "keys c = [''answer_summary'', ''sources'']"
  obtains a s where
    "wrap_response c = Inr (JObj [(''answer_summary'', a), (''sources'', s),
                                  (''instruction'', JStr response_instruction)])"
proof (cases c)
  case (JObj kvs)
  with assms have "map fst kvs = [''answer_summary'', ''sources'']"
    by (simp add: keys_def)
  then obtain a s where "kvs = [(''answer_summary'', a), (''sources'', s)]"
    by (auto simp: map_eq_Cons_conv)
  with JObj that show thesis
    by simp
qed (use assms in \<open>simp_all add: keys_def\<close>)

lemma fetch_shapes:
  assumes "fetch E api_key model query w1 = (Inr v, w2)"
  shows "(\<exists>m. v = JObj [(''error'', JStr m)]) \<or> (\<exists>m. v = JObj [(''results'', JStr m)]) \<or>
         (\<exists>a s. v = JObj [(''answer_summary'', a), (''sources'', s),
                           (''instruction'', JStr response_instruction)])"
proof (cases "post E (make_request api_key model query)")
  case (HttpRaises e)
  with assms show ?thesis
    by (simp add: fetch_def Let_def)
next
  case (HttpResponse resp)
  show ?thesis
  proof (cases "resp_status resp = 200")
    case False
    with HttpResponse assms show ?thesis
      by (auto simp: fetch_def Let_def split: sum.splits)
  next
    case True
    with HttpResponse assms obtain data p where "resp_json resp = Inr data"
      and p: "parse_data data = Inr p"
      and v: "(case p of Results r \<Rightarrow> Inr r | Response response \<Rightarrow> wrap_response response) = Inr v"
      by (auto simp: fetch_def Let_def split: sum.splits parsed.splits option.splits)
    show ?thesis
    proof (cases p)
      case (Results r)
      with p v parse_data_Results [of data r] show ?thesis
        by auto
    next
      case (Response r)
      with p obtain content s where "r = JObj [(''answer_summary'', content), (''sources'', s)]"
        by (auto elim: parse_data_Response)
      with Response v show ?thesis
        by auto
    qed
  qed
qed

text \<open>
  An exception that leaves the body of the \<^verbatim>\<open>try\<close> statement is one of a collaborator
  or an instance of \<^verbatim>\<open>Exception\<close>.
\<close>

lemma fetch_Exception:
  assumes "fetch E api_key model query w1 = (Inl e, w2)"
    and "list_all is_Exception (cache_exns E)"
    and "list_all is_Exception (outcome_exns (post E (make_request api_key model query)))"
  shows "is_Exception e"
proof (cases "post E (make_request api_key model query)")
  case (HttpRaises e')
  with assms show ?thesis
    by (simp add: fetch_def Let_def outcome_exns_def)
next
  case (HttpResponse resp)
  show ?thesis
  proof (cases "resp_status resp = 200")
    case False
    with HttpResponse assms show ?thesis
      by (auto simp: fetch_def Let_def outcome_exns_def split: sum.splits)
  next
    case True
    show ?thesis
    proof (cases "resp_json resp")
      case (Inl e')
      with True HttpResponse assms show ?thesis
        by (auto simp: fetch_def Let_def outcome_exns_def split: sum.splits)
    next
      case (Inr data)
      with True HttpResponse assms(1) have
        "parse_data data = Inl e \<or> set_raises E = Some e \<or>
         (\<exists>r. wrap_response r = Inl e)"
        by (auto simp: fetch_def Let_def split: sum.splits parsed.splits option.splits)
      with assms(2) show ?thesis
        by (auto simp: cache_exns_def dest: parse_data_Exception wrap_response_Exception)
    qed
  qed
qed

lemma try_body_Exception:
  assumes "try_body E api_key model query w = (Inl e, w')"
    and "list_all is_Exception (cache_exns E)"
    and "\<forall>req. list_all is_Exception (outcome_exns (post E req))"
  shows "is_Exception e"
proof (cases "SQLiteCache E")
  case (Some failure)
  with assms(1,2) show ?thesis
    by (cases failure) (auto simp: try_body_def cache_exns_def)
next
  case None
  show ?thesis
  proof (cases "is_hit (cache_entry E w model query)")
    case False
    with None assms show ?thesis
      by (auto simp: try_body_miss dest: fetch_Exception)
  next
    case True
    then obtain c where "cache_entry E w model query = Some c" and "truthy c"
      by (cases "cache_entry E w model query") auto
    with None assms(1) have "wrap_response c = Inl e"
      by (simp add: try_body_hit)
    then show ?thesis
      by (rule wrap_response_Exception)
  qed
qed

lemma try_body_shapes:
  assumes "try_body E api_key model query w = (Inr v, w')"
    and "stored_summary (cache_entry E w model query)"
  shows "(\<exists>m. v = JObj [(''error'', JStr m)]) \<or> (\<exists>m. v = JObj [(''results'', JStr m)]) \<or>
         (\<exists>a s. v = JObj [(''answer_summary'', a), (''sources'', s),
                           (''instruction'', JStr response_instruction)])"
proof (cases "SQLiteCache E")
  case (Some failure)
  with assms(1) show ?thesis
    by (cases failure) (simp_all add: try_body_def)
next
  case None
  show ?thesis
  proof (cases "is_hit (cache_entry E w model query)")
    case False
    with None assms(1) show ?thesis
      by (auto simp: try_body_miss dest: fetch_shapes)
  next
    case True
    then obtain c where c: "cache_entry E w model query = Some c" and "truthy c"
      by (cases "cache_entry E w model query") auto
    with None assms(1) have wrapped: "wrap_response c = Inr v"
      by (simp add: try_body_hit)
    from c assms(2) have "keys c = [''answer_summary'', ''sources'']"
      by simp
    then obtain a s where
      "wrap_response c = Inr (JObj [(''answer_summary'', a), (''sources'', s),
                                    (''instruction'', JStr response_instruction)])"
      by (rule stored_summary_wrap)
    with wrapped show ?thesis
      by auto
  qed
qed

text \<open>
  Once the settings and the query are read, the call is the \<^verbatim>\<open>try\<close> statement with
  its handler, or the return of line 77.
\<close>

lemma async_call_cases:
  assumes "read_config K h = Inr config_data"
    and "tool_args ti ''query'' = Some query"
  obtains
    (no_key) "fst (async_call K E h ti w) =
        Inr (JObj [(''error'', JStr ''Google Search API key not configured'')])"
  | (caught) api_key e w' where
      "try_body E api_key (get_model K config_data) query w = (Inl e, w')"
      and "is_Exception e" and "fst (async_call K E h ti w) = Inr (except_Exception e)"
  | (passed) api_key e w' where
      "try_body E api_key (get_model K config_data) query w = (Inl e, w')"
      and "\<not> is_Exception e" and "fst (async_call K E h ti w) = Inl e"
  | (returned) api_key v w' where
      "try_body E api_key (get_model K config_data) query w = (Inr v, w')"
      and "fst (async_call K E h ti w) = Inr v"
proof (cases "config_data (CONF_GOOGLE_SEARCH_API_KEY K) = None \<or>
    config_data (CONF_GOOGLE_SEARCH_API_KEY K) = Some []")
  case True
  with assms have "fst (async_call K E h ti w) =
      Inr (JObj [(''error'', JStr ''Google Search API key not configured'')])"
    by (auto simp: async_call_def search_def)
  then show thesis
    by (rule no_key)
next
  case False
  then obtain api_key where key: "config_data (CONF_GOOGLE_SEARCH_API_KEY K) = Some api_key"
    and nonempty: "api_key \<noteq> []"
    by auto
  obtain r w' where body: "try_body E api_key (get_model K config_data) query w = (r, w')"
    by (cases "try_body E api_key (get_model K config_data) query w")
  show thesis
  proof (cases r)
    case (Inl e)
    show thesis
    proof (cases "is_Exception e")
      case True
      with body Inl have "fst (async_call K E h ti w) = Inr (except_Exception e)"
        by (simp add: async_call_reached [OF assms key nonempty])
      with body Inl True show thesis
        by (intro caught) simp_all
    next
      case False
      with body Inl have "fst (async_call K E h ti w) = Inl e"
        by (simp add: async_call_reached [OF assms key nonempty])
      with body Inl False show thesis
        by (intro passed) simp_all
    qed
  next
    case (Inr v)
    with body have "fst (async_call K E h ti w) = Inr v"
      by (simp add: async_call_reached [OF assms key nonempty])
    with body Inr show thesis
      by (intro returned) simp_all
  qed
qed

lemma returned_shapes:
  assumes "read_config K h = Inr config_data"
    and "tool_args ti ''query'' = Some query"
    and "stored_summary (cache_entry E w (get_model K config_data) query)"
    and "fst (async_call K E h ti w) = Inr v"
  shows "(\<exists>m. v = JObj [(''error'', JStr m)]) \<or> (\<exists>m. v = JObj [(''results'', JStr m)]) \<or>
         (\<exists>a s. v = JObj [(''answer_summary'', a), (''sources'', s),
                           (''instruction'', JStr response_instruction)])"
  using assms(1,2)
proof (cases rule: async_call_cases [where E = E and w = w])
  case no_key
  with assms(4) show ?thesis
    by auto
next
  case (caught api_key e w')
  with assms(4) show ?thesis
    by (auto simp: except_Exception_def)
next
  case (passed api_key e w')
  with assms(4) show ?thesis
    by simp
next
  case (returned api_key v' w')
  with assms(4) try_body_shapes [OF returned(1) assms(3)] show ?thesis
    by simp
qed

text \<open>
  An exception that leaves the call after lines 66 to 70 is no instance of
  \<^verbatim>\<open>Exception\<close>: the handler lets nothing else pass.
\<close>

lemma only_BaseException_leaves:
  assumes "read_config K h = Inr config_data"
    and "tool_args ti ''query'' = Some query"
    and "fst (async_call K E h ti w) = Inl e"
  shows "\<not> is_Exception e"
  using assms(1,2)
proof (cases rule: async_call_cases [where E = E and w = w])
  case (passed api_key e' w')
  with assms(3) show ?thesis
    by simp
qed (use assms(3) in simp_all)

lemma cancellation_leaves_call:
  "fst (async_call example_const cancelled (example_hass ''secret'') example_input example_world) =
     Inl (BaseRaised ''CancelledError'' [])"
proof -
  have "try_body cancelled ''secret'' ''m'' ''weather'' example_world =
      (Inl (BaseRaised ''CancelledError'' []), requested example_world ''secret'' ''m'' ''weather'')"
    unfolding cancelled_def
    by (simp add: try_body_miss example_ctor example_miss fetch_raises example_post)
  with async_call_reached [OF example_read_config example_query example_api_key,
      of "''secret''" cancelled example_world]
  show ?thesis
    by (simp add: example_model)
qed

text \<open>
  Claim C1, amended. Once lines 66 to 70 have read the settings and the query,
  \<^verbatim>\<open>async_call\<close> does not raise as long as its collaborators raise instances of
  \<^verbatim>\<open>Exception\<close> only: whatever the constructor of the cache, its \<^verbatim>\<open>get\<close> and its
  \<^verbatim>\<open>set\<close>, the HTTP call, the reading of the body and the parsing of the answer do,
  raising such an exception included, it returns an object of one of the three shapes,
  the cache entry of the call being absent or a summary that an earlier call stored
  (\<open>store_holds_summaries\<close> below). An exception of lines 66 to 70, which stand
  before the \<^verbatim>\<open>try\<close> statement, reaches the caller, and so does an exception of a
  collaborator that is no instance of \<^verbatim>\<open>Exception\<close>, such as the cancellation of the
  task (\<open>cancellation_leaves_call\<close> above).
\<close>

theorem returns_tool_result:
  assumes "read_config K h = Inr config_data"
    and "tool_args ti ''query'' = Some query"
    and "stored_summary (cache_entry E w (get_model K config_data) query)"
    and "list_all is_Exception (cache_exns E)"
    and "\<forall>req. list_all is_Exception (outcome_exns (post E req))"
  shows "\<exists>v. fst (async_call K E h ti w) = Inr v \<and> well_formed v"
  using assms(1,2)
proof (cases rule: async_call_cases [where E = E and w = w])
  case no_key
  then show ?thesis
    by (simp add: well_formed_def keys_def)
next
  case (caught api_key e w')
  then show ?thesis
    by (simp add: well_formed_def keys_def except_Exception_def)
next
  case (passed api_key e w')
  with try_body_Exception [OF passed(1) assms(4,5)] show ?thesis
    by simp
next
  case (returned api_key v w')
  with try_body_shapes [OF returned(1) assms(3)] show ?thesis
    by (auto simp: well_formed_def keys_def)
qed

theorem returns_tool_result_witness:
  "read_config example_const (example_hass ''secret'') = Inr (example_config ''secret'') \<and>
   tool_args example_input ''query'' = Some ''weather'' \<and>
   stored_summary (cache_entry broken_cache example_cached_world
     (get_model example_const (example_config ''secret'')) ''weather'') \<and>
   list_all is_Exception (cache_exns broken_cache) \<and>
   (\<forall>req. list_all is_Exception (outcome_exns (post broken_cache req))) \<and>
   (\<exists>v. fst (async_call example_const broken_cache (example_hass ''secret'') example_input
               example_cached_world) = Inr v \<and> well_formed v) \<and>
   fst (async_call example_const broken_cache (example_hass ''secret'') example_input
          example_cached_world) =
     Inr (JObj [(''error'', JStr ''An error occurred during search: database is locked'')])"
proof -
  have entry: "stored_summary (cache_entry broken_cache example_cached_world
     (get_model example_const (example_config ''secret'')) ''weather'')"
    by (simp add: example_model cache_entry_def cache_get_def broken_cache_def
        example_cached_world_def example_summary_def Let_def keys_def)
  have cache: "list_all is_Exception (cache_exns broken_cache)"
    by (simp add: cache_exns_def broken_cache_def)
  have http: "\<forall>req. list_all is_Exception (outcome_exns (post broken_cache req))"
    by (simp add: outcome_exns_def broken_cache_def)
  have "try_body broken_cache ''secret'' ''m'' ''weather'' example_cached_world =
      (Inl (Raised ''OperationalError'' ''database is locked''),
       looked_up example_cached_world ''m'' ''weather'')"
    by (rule try_body_fails) (simp add: broken_cache_def)
  with async_call_reached [OF example_read_config example_query example_api_key,
      of "''secret''" broken_cache example_cached_world]
  have result: "fst (async_call example_const broken_cache (example_hass ''secret'') example_input
          example_cached_world) =
     Inr (JObj [(''error'', JStr ''An error occurred during search: database is locked'')])"
    by (simp add: example_model except_Exception_def)
  from returns_tool_result [OF example_read_config example_query entry cache http]
  show ?thesis
    using entry cache http result by (simp add: example_read_config example_query)
qed

text \<open>
  Claim C1 as it is stated fails when \<^verbatim>\<open>hass.data\<close> has no entry for the domain, and
  when the arguments of the tool hold no query: the \<^verbatim>\<open>KeyError\<close> leaves the call.
\<close>

theorem raises_before_try_counterexample:
  "fst (async_call example_const unreachable not_set_up example_input example_world) =
     Inl (KeyError (quoted ''llm_intents'')) \<and>
   fst (async_call example_const unreachable (example_hass ''secret'') no_arguments
          example_world) =
     Inl (KeyError (quoted ''query''))"
  by (simp add: async_call_def read_config_def not_set_up_def no_arguments_def example_const_def
      example_hass_def)

text \<open>
  Claim C2, amended. A returned summary, from the cache or from the server, holds the
  field \<^verbatim>\<open>instruction\<close> with the fixed text of the class, which is not empty; a
  returned no-information object and a returned error object do not hold the field.
\<close>

theorem instruction_on_summaries_only:
  assumes "read_config K h = Inr config_data"
    and "tool_args ti ''query'' = Some query"
    and "stored_summary (cache_entry E w (get_model K config_data) query)"
    and "fst (async_call K E h ti w) = Inr v"
  shows "(has_key ''answer_summary'' v \<longrightarrow>
            field ''instruction'' v = JStr response_instruction \<and> response_instruction \<noteq> []) \<and>
         (has_key ''results'' v \<or> has_key ''error'' v \<longrightarrow> \<not> has_key ''instruction'' v)"
  using returned_shapes [OF assms]
  by (auto simp: has_key_def keys_def field_def response_instruction_nonempty)

theorem instruction_on_summaries_only_witness:
  "read_config example_const (example_hass ''secret'') = Inr (example_config ''secret'') \<and>
   tool_args example_input ''query'' = Some ''weather'' \<and>
   stored_summary (cache_entry (example_env (HttpResponse (ok_response (answer five_attributions))))
     example_world (get_model example_const (example_config ''secret'')) ''weather'') \<and>
   fst (async_call example_const (example_env (HttpResponse (ok_response (answer five_attributions))))
          (example_hass ''secret'') example_input example_world) =
     Inr (JObj [(''answer_summary'', JStr ''sunny''),
                (''sources'', JList (take 3 (map citation (filter has_web five_attributions)))),
                (''instruction'', JStr response_instruction)]) \<and>
   has_key ''answer_summary''
     (JObj [(''answer_summary'', JStr ''sunny''),
            (''sources'', JList (take 3 (map citation (filter has_web five_attributions)))),
            (''instruction'', JStr response_instruction)]) \<and>
   field ''instruction''
     (JObj [(''answer_summary'', JStr ''sunny''),
            (''sources'', JList (take 3 (map citation (filter has_web five_attributions)))),
            (''instruction'', JStr response_instruction)]) = JStr response_instruction \<and>
   response_instruction \<noteq> []"
proof -
  have entry: "stored_summary
      (cache_entry (example_env (HttpResponse (ok_response (answer five_attributions))))
        example_world (get_model example_const (example_config ''secret'')) ''weather'')"
    by (simp add: cache_entry_def cache_get_def example_world_def Let_def)
  from instruction_on_summaries_only [OF example_read_config example_query entry example_five]
  show ?thesis
    using entry
    by (simp add: example_read_config example_query example_five has_key_def keys_def)
qed

text \<open>
  Claim C2 as it is stated fails on an answer without candidates: line 116 returns the
  no-information object as it is, without the field \<^verbatim>\<open>instruction\<close>.
\<close>

theorem no_results_unwrapped_counterexample:
  "fst (async_call example_const (example_env (HttpResponse no_candidates)) (example_hass ''secret'')
          example_input example_world) =
     Inr (JObj [(''results'', JStr information_not_found)]) \<and>
   \<not> has_key ''instruction'' (JObj [(''results'', JStr information_not_found)])"
proof -
  have "resp_status no_candidates = 200"
    and "resp_json no_candidates = Inr (JObj [(''candidates'', JList [])])"
    by (simp_all add: no_candidates_def)
  then show ?thesis
    by (simp add: example_call parse_data_no_candidates has_key_def keys_def)
qed

subsection \<open>The cache key\<close>

text \<open>
  Claim C9. Two parameter dicts with the same pairs of key and value, in whatever
  order they were inserted, have the same cache key in every namespace. Line 98 builds
  the parameters from the model and the query alone, so two calls with the same model
  and query address the same entry.
\<close>

theorem deriveKey_order_independent:
  assumes "distinct (map fst P)" and "distinct (map fst P')" and "set P = set P'"
  shows "deriveKey N P = deriveKey N P'"
proof -
  from assms(1,2) have "distinct P" and "distinct P'"
    by (simp_all add: distinct_map)
  with assms(3) have "mset P = mset P'"
    by (simp add: set_eq_iff_mset_eq_distinct)
  moreover from assms(1) have "inj_on fst (set P)"
    by (simp add: distinct_map)
  ultimately have "sort_key fst P = sort_key fst P'"
    by (intro sort_key_inj_key_eq) simp_all
  then show ?thesis
    by (simp add: deriveKey_def)
qed

theorem deriveKey_order_independent_witness:
  "distinct (map fst (cache_params ''m'' ''weather'')) \<and>
   distinct (map fst [(''query'', ''weather''), (''model'', ''m'')]) \<and>
   set (cache_params ''m'' ''weather'') = set [(''query'', ''weather''), (''model'', ''m'')] \<and>
   deriveKey this_module (cache_params ''m'' ''weather'') =
     deriveKey this_module [(''query'', ''weather''), (''model'', ''m'')]"
proof -
  have a: "distinct (map fst (cache_params ''m'' ''weather''))"
    and b: "distinct (map fst [(''query'', ''weather''), (''model'', ''m'')])"
    and c: "set (cache_params ''m'' ''weather'') = set [(''query'', ''weather''), (''model'', ''m'')]"
    by (auto simp: cache_params_def)
  from deriveKey_order_independent [OF a b c] a b c show ?thesis
    by simp
qed

subsection \<open>The content of the cache\<close>

text \<open>
  A call leaves the store as it was or adds one summary, so a store that holds only
  summaries keeps doing so.
\<close>

lemma cache_set_store:
  "store (cache_set E w namespace params v) = store w \<or>
   store (cache_set E w namespace params v) = (store w)(deriveKey namespace params \<mapsto> v)"
  by (simp add: cache_set_def)

lemma fetch_store:
  assumes "fetch E api_key model query w1 = (x, w2)"
  shows "store w2 = store w1 \<or>
         (\<exists>k a s. store w2 = (store w1)(k \<mapsto> JObj [(''answer_summary'', a), (''sources'', s)]))"
proof -
  let ?w = "w1\<lparr>requests := requests w1 @ [make_request api_key model query]\<rparr>"
  have "w2 = ?w \<or>
      (\<exists>a s. w2 = cache_set E ?w this_module (cache_params model query)
          (JObj [(''answer_summary'', a), (''sources'', s)]))"
    using assms
    by (auto simp: fetch_def Let_def
        split: http_outcome.splits if_splits sum.splits parsed.splits option.splits
        elim!: parse_data_Response)
  then show ?thesis
  proof
    assume "w2 = ?w"
    then show ?thesis
      by simp
  next
    assume "\<exists>a s. w2 = cache_set E ?w this_module (cache_params model query)
        (JObj [(''answer_summary'', a), (''sources'', s)])"
    then obtain a s where "w2 = cache_set E ?w this_module (cache_params model query)
        (JObj [(''answer_summary'', a), (''sources'', s)])"
      by blast
    with cache_set_store [of E ?w this_module "cache_params model query"
        "JObj [(''answer_summary'', a), (''sources'', s)]"]
    have "store w2 = store w1 \<or>
        store w2 = (store w1)(deriveKey this_module (cache_params model query) \<mapsto>
          JObj [(''answer_summary'', a), (''sources'', s)])"
      by simp
    then show ?thesis
      by blast
  qed
qed

lemma try_body_store:
  assumes "try_body E api_key model query w = (x, w')"
  shows "store w' = store w \<or>
         (\<exists>k a s. store w' = (store w)(k \<mapsto> JObj [(''answer_summary'', a), (''sources'', s)]))"
proof (cases "SQLiteCache E")
  case (Some failure)
  with assms show ?thesis
    by (cases failure) (auto simp: try_body_def cache_get_def Let_def)
next
  case None
  show ?thesis
  proof (cases "is_hit (cache_entry E w model query)")
    case False
    with None assms fetch_store [of E api_key model query "looked_up w model query" x w']
    show ?thesis
      by (simp add: try_body_miss looked_up_def)
  next
    case True
    then obtain c where "cache_entry E w model query = Some c" and "truthy c"
      by (cases "cache_entry E w model query") auto
    with None assms show ?thesis
      by (auto simp: try_body_hit looked_up_def)
  qed
qed

lemma store_after_call:
  assumes "async_call K E h ti w = (r, w')"
  shows "store w' = store w \<or>
         (\<exists>k a s. store w' = (store w)(k \<mapsto> JObj [(''answer_summary'', a), (''sources'', s)]))"
proof (cases "\<exists>config_data query api_key. read_config K h = Inr config_data \<and>
    tool_args ti ''query'' = Some query \<and>
    config_data (CONF_GOOGLE_SEARCH_API_KEY K) = Some api_key \<and> api_key \<noteq> []")
  case False
  with assms have "w' = w"
    by (auto simp: async_call_def search_def split: sum.splits option.splits if_splits)
  then show ?thesis
    by simp
next
  case True
  then obtain config_data query api_key where rc: "read_config K h = Inr config_data"
    and q: "tool_args ti ''query'' = Some query"
    and k: "config_data (CONF_GOOGLE_SEARCH_API_KEY K) = Some api_key" "api_key \<noteq> []"
    by blast
  obtain x w2 where body: "try_body E api_key (get_model K config_data) query w = (x, w2)"
    by (cases "try_body E api_key (get_model K config_data) query w")
  with assms have "w' = w2"
    by (auto simp: async_call_reached [OF rc q k] split: sum.splits if_splits)
  with try_body_store [OF body] show ?thesis
    by simp
qed

lemma store_holds_summaries:
  assumes "async_call K E h ti w = (r, w')"
    and "\<forall>k c. store w k = Some c \<longrightarrow> keys c = [''answer_summary'', ''sources'']"
  shows "\<forall>k c. store w' k = Some c \<longrightarrow> keys c = [''answer_summary'', ''sources'']"
  using store_after_call [OF assms(1)] assms(2)
  by (auto simp: keys_def split: if_splits)

text \<open>
  The cache idempotence of section 8 of the spec: after a call that fetched a summary
  and stored it, the same call, with whatever server, returns the same object and
  sends no request.
\<close>

lemma second_call_hits:
  assumes "read_config K h = Inr config_data"
    and "tool_args ti ''query'' = Some query"
    and "config_data (CONF_GOOGLE_SEARCH_API_KEY K) = Some api_key"
    and "api_key \<noteq> []"
    and "SQLiteCache E = None"
    and "\<not> is_hit (cache_entry E w (get_model K config_data) query)"
    and "post E (make_request api_key (get_model K config_data) query) = HttpResponse resp"
    and "resp_status resp = 200"
    and "resp_json resp = Inr data"
    and "parse_data data = Inr (Response r)"
    and "set_raises E = None" and "storage_ok E"
    and "SQLiteCache E' = None" and "storage_ok E'"
  shows "fst (async_call K E' h ti (snd (async_call K E h ti w))) = fst (async_call K E h ti w) \<and>
         requests (snd (async_call K E' h ti (snd (async_call K E h ti w)))) =
           requests (snd (async_call K E h ti w))"
proof -
  let ?m = "get_model K config_data"
  from assms(10) obtain a s where r: "r = JObj [(''answer_summary'', a), (''sources'', s)]"
    by (auto elim: parse_data_Response)
  let ?v = "JObj [(''answer_summary'', a), (''sources'', s),
                  (''instruction'', JStr response_instruction)]"
  let ?w' = "cache_set E (requested w api_key ?m query) this_module (cache_params ?m query) r"
  have first: "async_call K E h ti w = (Inr ?v, ?w')"
    using assms(10,11) r by (simp add: ok_call [OF assms(1-9)])
  have entry: "cache_entry E' ?w' ?m query = Some r"
    using assms(12,14) by (simp add: cache_entry_def cache_get_def cache_set_def Let_def)
  have "truthy r"
    using r by simp
  with entry assms(13) have "async_call K E' h ti ?w' = (Inr ?v, looked_up ?w' ?m query)"
    using r by (simp add: async_call_reached [OF assms(1-4)] try_body_hit)
  with first show ?thesis
    by (simp add: looked_up_def)
qed

end
